theory Spec2Isabelle
  imports Complex_Main "HOL-Library.AList"
begin

section \<open>Values of the blueprint document\<close>

text \<open>
  The generator of \<^verbatim>\<open>main.py\<close> works on whatever \<^verbatim>\<open>json.loads\<close> returns: dictionaries,
  lists, strings, numbers, booleans and \<^verbatim>\<open>None\<close>. A Python float is a finite dyadic rational,
  an infinity or NaN; comparing it with an integer constant is exact, so a finite float is
  represented by its rational value. A dictionary is an association list in insertion
  order; strings are lists of characters with code points below 256.
\<close>

datatype pyfloat = Fin rat | PInf | NInf | NaN

datatype json =
    JNull
  | JBool bool
  | JInt int
  | JFloat pyfloat
  | JStr string
  | JArr "json list"
  | JObj "(string \<times> json) list"

text \<open>Exceptions are values. Only the classes the code can raise or catch are listed.\<close>

datatype py_error =
    ValueError string
  | PyException string
  | AttributeError
  | TypeError
  | KeyError
  | IndexError
  | ZeroDivisionError
  | JSONDecodeError
  | OtherError string

definition bindE :: "'e + 'a \<Rightarrow> ('a \<Rightarrow> 'e + 'b) \<Rightarrow> 'e + 'b" where
  "bindE m f = (case m of Inl e \<Rightarrow> Inl e | Inr x \<Rightarrow> f x)"

text \<open>\<^verbatim>\<open>a and b\<close> on two comparisons: \<^verbatim>\<open>b\<close> is evaluated only when \<^verbatim>\<open>a\<close> is true.\<close>

definition py_and :: "py_error + bool \<Rightarrow> py_error + bool \<Rightarrow> py_error + bool" where
  "py_and a b = bindE a (\<lambda>v. if v then b else Inr False)"

subsection \<open>Python operations on decoded values\<close>

text \<open>\<^verbatim>\<open>v.get(k, d)\<close>: only a dictionary has the method.\<close>

definition py_get :: "json \<Rightarrow> string \<Rightarrow> json \<Rightarrow> py_error + json" where
  "py_get v k d =
     (case v of
        JObj kvs \<Rightarrow> (case map_of kvs k of None \<Rightarrow> Inr d | Some x \<Rightarrow> Inr x)
      | _ \<Rightarrow> Inl AttributeError)"

text \<open>Substring test of \<^verbatim>\<open>sub in s\<close> on strings.\<close>

fun starts_with :: "string \<Rightarrow> string \<Rightarrow> bool" where
  "starts_with [] s = True"
| "starts_with (p # ps) [] = False"
| "starts_with (p # ps) (c # cs) = (p = c \<and> starts_with ps cs)"

fun find_str :: "string \<Rightarrow> string \<Rightarrow> nat option" where
  "find_str sub [] = (if sub = [] then Some 0 else None)"
| "find_str sub (c # cs) =
     (if starts_with sub (c # cs) then Some 0 else map_option Suc (find_str sub cs))"

definition str_contains :: "string \<Rightarrow> string \<Rightarrow> bool" where
  "str_contains sub s = (find_str sub s \<noteq> None)"

text \<open>
  \<^verbatim>\<open>k in v\<close> for a string \<^verbatim>\<open>k\<close>: key test on a dictionary, membership on a list,
  substring test on a string, \<^verbatim>\<open>TypeError\<close> on anything else.
\<close>

definition py_contains :: "string \<Rightarrow> json \<Rightarrow> py_error + bool" where
  "py_contains k v =
     (case v of
        JObj kvs \<Rightarrow> Inr (map_of kvs k \<noteq> None)
      | JArr xs \<Rightarrow> Inr (JStr k \<in> set xs)
      | JStr s \<Rightarrow> Inr (str_contains k s)
      | _ \<Rightarrow> Inl TypeError)"

text \<open>\<^verbatim>\<open>v[k] = x\<close> for a string \<^verbatim>\<open>k\<close>: a dictionary keeps the position of an existing key
  and appends a new one; nothing else accepts a string subscript.\<close>

definition py_setitem :: "json \<Rightarrow> string \<Rightarrow> json \<Rightarrow> py_error + json" where
  "py_setitem v k x =
     (case v of
        JObj kvs \<Rightarrow> Inr (JObj (AList.update k x kvs))
      | _ \<Rightarrow> Inl TypeError)"

text \<open>\<^verbatim>\<open>for item in v\<close>: the sequence a \<^verbatim>\<open>for\<close> loop walks through.\<close>

definition py_iter :: "json \<Rightarrow> py_error + json list" where
  "py_iter v =
     (case v of
        JArr xs \<Rightarrow> Inr xs
      | JObj kvs \<Rightarrow> Inr (map (\<lambda>kv. JStr (fst kv)) kvs)
      | JStr s \<Rightarrow> Inr (map (\<lambda>c. JStr [c]) s)
      | _ \<Rightarrow> Inl TypeError)"

text \<open>Comparison of a decoded value with an integer constant; \<^verbatim>\<open>True\<close> counts as 1.\<close>

definition float_lt :: "pyfloat \<Rightarrow> int \<Rightarrow> bool" where
  "float_lt f c = (case f of Fin r \<Rightarrow> r < of_int c | NInf \<Rightarrow> True | PInf \<Rightarrow> False | NaN \<Rightarrow> False)"

definition float_gt :: "pyfloat \<Rightarrow> int \<Rightarrow> bool" where
  "float_gt f c = (case f of Fin r \<Rightarrow> r > of_int c | PInf \<Rightarrow> True | NInf \<Rightarrow> False | NaN \<Rightarrow> False)"

definition py_lt :: "json \<Rightarrow> int \<Rightarrow> py_error + bool" where
  "py_lt v c =
     (case v of
        JInt i \<Rightarrow> Inr (i < c)
      | JBool b \<Rightarrow> Inr ((if b then 1 else 0) < c)
      | JFloat f \<Rightarrow> Inr (float_lt f c)
      | _ \<Rightarrow> Inl TypeError)"

definition py_gt :: "json \<Rightarrow> int \<Rightarrow> py_error + bool" where
  "py_gt v c =
     (case v of
        JInt i \<Rightarrow> Inr (i > c)
      | JBool b \<Rightarrow> Inr ((if b then 1 else 0) > c)
      | JFloat f \<Rightarrow> Inr (float_gt f c)
      | _ \<Rightarrow> Inl TypeError)"

section \<open>BlueprintNormalizer\<close>

definition ROOM_DIRECTIONS :: "string list" where
  "ROOM_DIRECTIONS = [''North'', ''South'', ''East'', ''West'', ''Northeast'', ''Northwest'',
     ''Southeast'', ''Southwest'', ''Center'']"

text \<open>\<^verbatim>\<open>_calculate_room_direction\<close>: the \<^verbatim>\<open>if\<close>/\<^verbatim>\<open>elif\<close> chain in the source's order.\<close>

definition direction_chain :: "json \<Rightarrow> json \<Rightarrow> py_error + json" where
  "direction_chain x y =
     bindE (py_and (py_lt x (- 5)) (py_gt y 5)) (\<lambda>c1.
       if c1 then Inr (JStr ''Northwest'') else
     bindE (py_and (py_gt x 5) (py_gt y 5)) (\<lambda>c2.
       if c2 then Inr (JStr ''Northeast'') else
     bindE (py_and (py_lt x (- 5)) (py_lt y (- 5))) (\<lambda>c3.
       if c3 then Inr (JStr ''Southwest'') else
     bindE (py_and (py_gt x 5) (py_lt y (- 5))) (\<lambda>c4.
       if c4 then Inr (JStr ''Southeast'') else
     bindE (py_lt x (- 2)) (\<lambda>c5.
       if c5 then Inr (JStr ''West'') else
     bindE (py_gt x 2) (\<lambda>c6.
       if c6 then Inr (JStr ''East'') else
     bindE (py_gt y 2) (\<lambda>c7.
       if c7 then Inr (JStr ''North'') else
     bindE (py_lt y (- 2)) (\<lambda>c8.
       if c8 then Inr (JStr ''South'') else
       Inr (JStr ''Center'')))))))))"

definition calculate_room_direction :: "json \<Rightarrow> py_error + json" where
  "calculate_room_direction room =
     bindE (py_get room ''position'' (JObj [(''x'', JInt 0), (''y'', JInt 0)])) (\<lambda>pos.
     bindE (py_get pos ''x'' (JInt 0)) (\<lambda>x.
     bindE (py_get pos ''y'' (JInt 0)) (\<lambda>y.
       direction_chain x y)))"

text \<open>
  The direction rule in the words of the specification, on the numeric value of the two
  coordinates: diagonal first, then the horizontal axis, then the vertical one, then Center.
\<close>

definition direction_spec :: "rat \<Rightarrow> rat \<Rightarrow> string" where
  "direction_spec x y =
     (if \<bar>x\<bar> > 5 \<and> \<bar>y\<bar> > 5 then
        (if x < 0 \<and> y > 0 then ''Northwest''
         else if x > 0 \<and> y > 0 then ''Northeast''
         else if x < 0 \<and> y < 0 then ''Southwest''
         else ''Southeast'')
      else if \<bar>x\<bar> > 2 then (if x < 0 then ''West'' else ''East'')
      else if \<bar>y\<bar> > 2 then (if y > 0 then ''North'' else ''South'')
      else ''Center'')"

text \<open>The number a decoded coordinate stands for (integers, booleans and finite floats).\<close>

definition num_val :: "json \<Rightarrow> rat option" where
  "num_val v =
     (case v of
        JInt i \<Rightarrow> Some (of_int i)
      | JBool b \<Rightarrow> Some (if b then 1 else 0)
      | JFloat (Fin r) \<Rightarrow> Some r
      | _ \<Rightarrow> None)"

text \<open>A room whose position holds the two given coordinates.\<close>

definition room_at :: "json \<Rightarrow> json \<Rightarrow> json" where
  "room_at x y = JObj [(''position'', JObj [(''x'', x), (''y'', y)])]"

subsection \<open>Requirements\<close>

text \<open>\<^verbatim>\<open>BuildingRequirements\<close>, with the field types of the pydantic model.\<close>

record requirements =
  building_type :: string
  total_area :: pyfloat
  floors :: int
  occupancy :: string
  special_features :: "string list"
  budget_level :: string

subsection \<open>Default colours\<close>

definition color_map :: "(string \<times> string) list" where
  "color_map =
     [(''living'', ''#e3f2fd''),
      (''bedroom'', ''#f3e5f5''),
      (''kitchen'', ''#e8f5e8''),
      (''bathroom'', ''#fff3e0''),
      (''office'', ''#e1f5fe''),
      (''dining'', ''#fce4ec''),
      (''storage'', ''#f5f5f5''),
      (''hallway'', ''#f9f9f9''),
      (''lobby'', ''#e0f2f1''),
      (''conference'', ''#fff8e1''),
      (''medical'', ''#e8eaf6''),
      (''lab'', ''#f1f8e9''),
      (''ward'', ''#fafafa'')]"

text \<open>
  \<^verbatim>\<open>_get_default_room_color\<close>: \<^verbatim>\<open>color_map.get(room_type, "#f5f5f5")\<close>. The argument is
  whatever the room holds under \<^verbatim>\<open>type\<close>; a list or a dictionary is unhashable, any other
  value that is not one of the thirteen keys gets the default.
\<close>

definition get_default_room_color :: "json \<Rightarrow> py_error + json" where
  "get_default_room_color room_type =
     (case room_type of
        JStr t \<Rightarrow> Inr (JStr (case map_of color_map t of None \<Rightarrow> ''#f5f5f5'' | Some c \<Rightarrow> c))
      | JArr _ \<Rightarrow> Inl TypeError
      | JObj _ \<Rightarrow> Inl TypeError
      | _ \<Rightarrow> Inr (JStr ''#f5f5f5''))"

subsection \<open>The normalisation loops\<close>

text \<open>A loop body applied to every item in turn; the first exception ends the loop.\<close>

fun mapE :: "('a \<Rightarrow> 'e + 'b) \<Rightarrow> 'a list \<Rightarrow> 'e + 'b list" where
  "mapE f [] = Inr []"
| "mapE f (x # xs) = bindE (f x) (\<lambda>y. bindE (mapE f xs) (\<lambda>ys. Inr (y # ys)))"

text \<open>
  The loops mutate the rooms in place. In the model a loop returns the items as they are
  after the loop, and the container is rebuilt around them: a list holds the new items, a
  dictionary (the loop walks its keys) or a string (its characters) holds immutable items
  and stays as it is.
\<close>

definition with_items :: "json \<Rightarrow> json list \<Rightarrow> json" where
  "with_items container items = (case container of JArr _ \<Rightarrow> JArr items | _ \<Rightarrow> container)"

text \<open>The dictionary \<open>d\<close> whose value under an existing key \<open>k\<close> was mutated into \<open>v\<close>;
  with the key absent the loop ran over a fresh empty list and \<open>d\<close> is untouched.\<close>

definition put_back :: "json \<Rightarrow> string \<Rightarrow> json \<Rightarrow> json" where
  "put_back d k v =
     (case d of
        JObj kvs \<Rightarrow> (if map_of kvs k = None then d else JObj (AList.update k v kvs))
      | _ \<Rightarrow> d)"

text \<open>The body of the inner loop of \<^verbatim>\<open>_validate_and_fix_blueprint\<close>, for one room.\<close>

definition fix_room :: "json \<Rightarrow> py_error + json" where
  "fix_room room =
     bindE (py_contains ''direction'' room) (\<lambda>has_direction.
     bindE (if has_direction then Inr room
            else bindE (calculate_room_direction room) (\<lambda>d. py_setitem room ''direction'' d))
       (\<lambda>room1.
     bindE (py_contains ''features'' room1) (\<lambda>has_features.
     bindE (if has_features then Inr room1 else py_setitem room1 ''features'' (JArr []))
       (\<lambda>room2.
     bindE (py_contains ''color'' room2) (\<lambda>has_color.
       if has_color then Inr room2
       else bindE (py_get room2 ''type'' (JStr ''general'')) (\<lambda>t.
            bindE (get_default_room_color t) (\<lambda>c.
              py_setitem room2 ''color'' c)))))))"

text \<open>The body of the outer loop, for one floor plan.\<close>

definition fix_floor_plan :: "json \<Rightarrow> py_error + json" where
  "fix_floor_plan floor_plan =
     bindE (py_get floor_plan ''rooms'' (JArr [])) (\<lambda>rooms.
     bindE (py_iter rooms) (\<lambda>items.
     bindE (mapE fix_room items) (\<lambda>items'.
       Inr (put_back floor_plan ''rooms'' (with_items rooms items')))))"

text \<open>\<^verbatim>\<open>_validate_and_fix_blueprint\<close>; the requirements argument is never read.\<close>

definition validate_and_fix_blueprint :: "json \<Rightarrow> requirements option \<Rightarrow> py_error + json" where
  "validate_and_fix_blueprint blueprint reqs =
     bindE (py_get blueprint ''floor_plans'' (JArr [])) (\<lambda>floor_plans.
     bindE (py_iter floor_plans) (\<lambda>items.
     bindE (mapE fix_floor_plan items) (\<lambda>items'.
       Inr (put_back blueprint ''floor_plans'' (with_items floor_plans items')))))"

subsection \<open>Reading a blueprint\<close>

text \<open>The floor plans of a blueprint and the rooms of a floor plan, where they are lists.\<close>

definition floor_plans_of :: "json \<Rightarrow> json list" where
  "floor_plans_of blueprint =
     (case blueprint of
        JObj kvs \<Rightarrow> (case map_of kvs ''floor_plans'' of Some (JArr fps) \<Rightarrow> fps | _ \<Rightarrow> [])
      | _ \<Rightarrow> [])"

definition rooms_of_floor :: "json \<Rightarrow> json list" where
  "rooms_of_floor floor_plan =
     (case floor_plan of
        JObj kvs \<Rightarrow> (case map_of kvs ''rooms'' of Some (JArr rs) \<Rightarrow> rs | _ \<Rightarrow> [])
      | _ \<Rightarrow> [])"

definition all_rooms :: "json \<Rightarrow> json list" where
  "all_rooms blueprint = concat (map rooms_of_floor (floor_plans_of blueprint))"

definition is_hex_digit :: "char \<Rightarrow> bool" where
  "is_hex_digit c = (c \<in> set ''0123456789abcdefABCDEF'')"

definition is_hex_color :: "string \<Rightarrow> bool" where
  "is_hex_color s =
     (case s of [] \<Rightarrow> False | c # cs \<Rightarrow> c = CHR ''#'' \<and> cs \<noteq> [] \<and> list_all is_hex_digit cs)"

text \<open>
  What normalisation does to one room dictionary: a key that was there keeps its value,
  whatever it is; a missing direction becomes one of the nine names, missing features the
  empty list, a missing colour a hex string; no other key changes.
\<close>

definition room_fixed :: "(string \<times> json) list \<Rightarrow> (string \<times> json) list \<Rightarrow> bool" where
  "room_fixed kvs kvs' =
     ((case map_of kvs ''direction'' of
         Some d \<Rightarrow> map_of kvs' ''direction'' = Some d
       | None \<Rightarrow> (case map_of kvs' ''direction'' of
                    Some (JStr d) \<Rightarrow> d \<in> set ROOM_DIRECTIONS | _ \<Rightarrow> False))
      \<and> (case map_of kvs ''features'' of
         Some f \<Rightarrow> map_of kvs' ''features'' = Some f
       | None \<Rightarrow> map_of kvs' ''features'' = Some (JArr []))
      \<and> (case map_of kvs ''color'' of
         Some c \<Rightarrow> map_of kvs' ''color'' = Some c
       | None \<Rightarrow> (case map_of kvs' ''color'' of
                    Some (JStr c) \<Rightarrow> is_hex_color c | _ \<Rightarrow> False))
      \<and> (\<forall>k \<in> set (map fst kvs @ map fst kvs').
           k \<notin> {''direction'', ''features'', ''color''} \<longrightarrow> map_of kvs' k = map_of kvs k))"

text \<open>A blueprint with one floor plan holding the given rooms.\<close>

definition one_floor :: "json list \<Rightarrow> json" where
  "one_floor rooms = JObj [(''floor_plans'', JArr [JObj [(''floor_number'', JInt 1), (''rooms'', JArr rooms)]])]"

text \<open>
  A blueprint of the expected shape: a dictionary whose floor plans, when present, are a
  list of dictionaries whose rooms, when present, are a list of dictionaries; a room
  without a direction has a position (when present) that is a dictionary with numeric
  coordinates, and a room without a colour has a hashable type.
\<close>

definition position_ok :: "(string \<times> json) list \<Rightarrow> bool" where
  "position_ok kvs =
     (case map_of kvs ''position'' of
        None \<Rightarrow> True
      | Some (JObj pos) \<Rightarrow>
          num_val (case map_of pos ''x'' of None \<Rightarrow> JInt 0 | Some v \<Rightarrow> v) \<noteq> None \<and>
          num_val (case map_of pos ''y'' of None \<Rightarrow> JInt 0 | Some v \<Rightarrow> v) \<noteq> None
      | _ \<Rightarrow> False)"

definition type_ok :: "(string \<times> json) list \<Rightarrow> bool" where
  "type_ok kvs =
     (case map_of kvs ''type'' of Some (JArr _) \<Rightarrow> False | Some (JObj _) \<Rightarrow> False | _ \<Rightarrow> True)"

definition room_ok :: "json \<Rightarrow> bool" where
  "room_ok room =
     (case room of
        JObj kvs \<Rightarrow>
          (if map_of kvs ''direction'' = None then position_ok kvs else True) \<and>
          (if map_of kvs ''color'' = None then type_ok kvs else True)
      | _ \<Rightarrow> False)"

definition floor_plan_ok :: "json \<Rightarrow> bool" where
  "floor_plan_ok floor_plan =
     (case floor_plan of
        JObj kvs \<Rightarrow>
          (case map_of kvs ''rooms'' of
             None \<Rightarrow> True | Some (JArr rs) \<Rightarrow> list_all room_ok rs | _ \<Rightarrow> False)
      | _ \<Rightarrow> False)"

definition blueprint_ok :: "json \<Rightarrow> bool" where
  "blueprint_ok blueprint =
     (case blueprint of
        JObj kvs \<Rightarrow>
          (case map_of kvs ''floor_plans'' of
             None \<Rightarrow> True | Some (JArr fps) \<Rightarrow> list_all floor_plan_ok fps | _ \<Rightarrow> False)
      | _ \<Rightarrow> False)"

subsection \<open>The fallback document\<close>

text \<open>
  \<^verbatim>\<open>_get_fallback_response\<close> returns a constant text: an empty first line, an opening
  brace, the lines below, a closing brace; every line ends with a newline.
\<close>

definition fallback_middle_lines :: "string list" where
  \<open>fallback_middle_lines =
    [''  "building_info": {'',
     ''    "type": "residential_house",'',
     ''    "total_area": 150.0,'',
     ''    "floors": 2,'',
     ''    "occupancy": "family",'',
     ''    "special_features": ["parking", "garden"],'',
     ''    "budget_level": "standard"'',
     ''  },'',
     ''  "floor_plans": ['',
     ''    {'',
     ''      "floor_number": 1,'',
     ''      "area": 75.0,'',
     ''      "rooms": ['',
     ''        {'',
     ''          "name": "Living Room",'',
     ''          "type": "living",'',
     ''          "dimensions": {'',
     ''            "width": 6.0,'',
     ''            "length": 8.0,'',
     ''            "area": 48.0'',
     ''          },'',
     ''          "position": {'',
     ''            "x": 0,'',
     ''            "y": 0'',
     ''          },'',
     ''          "direction": "Center",'',
     ''          "features": ["natural_light", "main_entrance"],'',
     ''          "color": "#e3f2fd"'',
     ''        },'',
     ''        {'',
     ''          "name": "Kitchen",'',
     ''          "type": "kitchen", '',
     ''          "dimensions": {'',
     ''            "width": 4.0,'',
     ''            "length": 5.0,'',
     ''            "area": 20.0'',
     ''          },'',
     ''          "position": {'',
     ''            "x": 8,'',
     ''            "y": 0'',
     ''          },'',
     ''          "direction": "East",'',
     ''          "features": ["ventilation", "plumbing"],'',
     ''          "color": "#e8f5e8"'',
     ''        }'',
     ''      ]'',
     ''    },'',
     ''    {'',
     ''      "floor_number": 2,'',
     ''      "area": 75.0,'',
     ''      "rooms": ['',
     ''        {'',
     ''          "name": "Master Bedroom",'',
     ''          "type": "bedroom",'',
     ''          "dimensions": {'',
     ''            "width": 5.0,'',
     ''            "length": 6.0,'',
     ''            "area": 30.0'',
     ''          },'',
     ''          "position": {'',
     ''            "x": 0,'',
     ''            "y": 0'',
     ''          },'',
     ''          "direction": "North",'',
     ''          "features": ["natural_light", "ensuite"],'',
     ''          "color": "#f3e5f5"'',
     ''        }'',
     ''      ]'',
     ''    }'',
     ''  ],'',
     ''  "design_constraints": {'',
     ''    "building_codes": ["local_residential_code"],'',
     ''    "min_room_dimensions": {'',
     ''      "bedroom": {"min_area": 12, "min_width": 3},'',
     ''      "bathroom": {"min_area": 6, "min_width": 2}'',
     ''    }'',
     ''  },'',
     ''  "metadata": {'',
     ''    "created_date": "2025-01-01T00:00:00",'',
     ''    "version": "1.0",'',
     ''    "generator": "Gemini Blueprint System"'',
     ''  }'']\<close>

definition fallback_lines :: "string list" where
  "fallback_lines = '''' # ''{'' # fallback_middle_lines @ [''}'']"

definition get_fallback_response :: string where
  "get_fallback_response = concat (map (\<lambda>l. l @ [CHR 0x0A]) fallback_lines)"

text \<open>The fallback text without its first and last newline.\<close>

definition fallback_body :: string where
  "fallback_body =
     ''{'' @ CHR 0x0A # concat (map (\<lambda>l. l @ [CHR 0x0A]) fallback_middle_lines) @ ''}''"

section \<open>Strings\<close>

text \<open>\<^verbatim>\<open>s.find(sub, start)\<close>: the lowest index at or after \<open>start\<close> where \<open>sub\<close> occurs, else -1.\<close>

definition py_find :: "string \<Rightarrow> string \<Rightarrow> int \<Rightarrow> int" where
  "py_find s sub start =
     (let n = int (length s);
          st = (if start < 0 then max 0 (start + n) else start)
      in if st > n then - 1
         else (case find_str sub (drop (nat st) s) of None \<Rightarrow> - 1 | Some i \<Rightarrow> st + int i))"

text \<open>\<^verbatim>\<open>s[start:stop]\<close>: a negative index counts from the end, and both are clipped to the string.\<close>

definition slice_index :: "nat \<Rightarrow> int \<Rightarrow> nat" where
  "slice_index n i = (if i < 0 then nat (max 0 (i + int n)) else min (nat i) n)"

definition py_slice :: "string \<Rightarrow> int \<Rightarrow> int \<Rightarrow> string" where
  "py_slice s start stop =
     (let a = slice_index (length s) start; b = slice_index (length s) stop
      in take (b - a) (drop a s))"

text \<open>\<^verbatim>\<open>s.strip()\<close>: the characters \<^verbatim>\<open>str.isspace\<close> accepts, among code points below 256.\<close>

definition is_space :: "char \<Rightarrow> bool" where
  "is_space c = (of_char c \<in> set [9, 10, 11, 12, 13, 28, 29, 30, 31, 32, 133, 160 :: nat])"

definition py_strip :: "string \<Rightarrow> string" where
  "py_strip s = rev (dropWhile is_space (rev (dropWhile is_space s)))"

text \<open>\<^verbatim>\<open>str(n)\<close> of an integer, for the message of an exception.\<close>

function str_nat :: "nat \<Rightarrow> string" where
  "str_nat n = (if n < 10 then [''0123456789'' ! n] else str_nat (n div 10) @ [''0123456789'' ! (n mod 10)])"
  by pat_completeness auto
termination
  by (relation "measure id") auto

definition str_int :: "int \<Rightarrow> string" where
  "str_int i = (if i < 0 then ''-'' @ str_nat (nat (- i)) else str_nat (nat i))"

text \<open>\<^verbatim>\<open>sep.join(xs)\<close>.\<close>

fun join :: "string \<Rightarrow> string list \<Rightarrow> string" where
  "join sep [] = []"
| "join sep [x] = x"
| "join sep (x # y # ys) = x @ sep @ join sep (y # ys)"

section \<open>The world outside\<close>

text \<open>
  What \<^verbatim>\<open>requests.post\<close> does with a request: it raises, or it returns a response with a
  status code, a body text, and what \<^verbatim>\<open>response.json()\<close> makes of the body.
\<close>

datatype http_outcome =
    RequestFailed py_error
  | Response int string "py_error + json"

text \<open>
  Everything the generator takes from outside in one call of an operation: the answer of
  the HTTP service to a prompt, the JSON decoder \<^verbatim>\<open>json.loads\<close> (an exception or a value),
  the clock (its successive readings), float division, and the rendering of the three prompt templates (f-strings
  over \<^verbatim>\<open>str\<close> of floats and lists and over \<^verbatim>\<open>json.dumps\<close>), whose text only travels to the
  HTTP service.
\<close>

record env =
  post :: "string \<Rightarrow> http_outcome"
  loads :: "string \<Rightarrow> py_error + json"
  clock :: "nat \<Rightarrow> string"
  float_div :: "pyfloat \<Rightarrow> int \<Rightarrow> py_error + pyfloat"
  render_initial :: "requirements \<Rightarrow> string list \<Rightarrow> pyfloat \<Rightarrow> string \<Rightarrow> string"
  render_iteration :: "json \<Rightarrow> string \<Rightarrow> string"
  render_optimization :: "json \<Rightarrow> string list \<Rightarrow> string"

section \<open>GenerativeModelGateway\<close>

text \<open>Subscripts and \<^verbatim>\<open>len\<close> on decoded values.\<close>

definition py_getitem :: "json \<Rightarrow> string \<Rightarrow> py_error + json" where
  "py_getitem v k =
     (case v of
        JObj kvs \<Rightarrow> (case map_of kvs k of None \<Rightarrow> Inl KeyError | Some x \<Rightarrow> Inr x)
      | _ \<Rightarrow> Inl TypeError)"

definition py_getitem0 :: "json \<Rightarrow> py_error + json" where
  "py_getitem0 v =
     (case v of
        JArr xs \<Rightarrow> (case xs of [] \<Rightarrow> Inl IndexError | x # _ \<Rightarrow> Inr x)
      | JStr s \<Rightarrow> (case s of [] \<Rightarrow> Inl IndexError | c # _ \<Rightarrow> Inr (JStr [c]))
      | JObj kvs \<Rightarrow> Inl KeyError
      | _ \<Rightarrow> Inl TypeError)"

definition py_len :: "json \<Rightarrow> py_error + nat" where
  "py_len v =
     (case v of
        JArr xs \<Rightarrow> Inr (length xs)
      | JStr s \<Rightarrow> Inr (length s)
      | JObj kvs \<Rightarrow> Inr (length kvs)
      | _ \<Rightarrow> Inl TypeError)"

text \<open>The body of the \<^verbatim>\<open>try\<close> block of \<^verbatim>\<open>_call_gemini_api\<close>.\<close>

definition gemini_request :: "env \<Rightarrow> string \<Rightarrow> py_error + json" where
  "gemini_request e prompt =
     (case post e prompt of
        RequestFailed err \<Rightarrow> Inl err
      | Response status_code text body \<Rightarrow>
          if status_code = 200 then
            bindE body (\<lambda>response_data.
            bindE (py_and (py_contains ''candidates'' response_data)
                     (bindE (py_getitem response_data ''candidates'') (\<lambda>c.
                      bindE (py_len c) (\<lambda>n. Inr (n > 0))))) (\<lambda>some.
              if some then
                bindE (py_getitem response_data ''candidates'') (\<lambda>c.
                bindE (py_getitem0 c) (\<lambda>c0.
                bindE (py_getitem c0 ''content'') (\<lambda>content.
                bindE (py_getitem content ''parts'') (\<lambda>parts.
                bindE (py_getitem0 parts) (\<lambda>p0.
                  py_getitem p0 ''text'')))))
              else Inl (PyException ''No response generated by Gemini'')))
          else Inl (PyException (''API call failed: '' @ str_int status_code @ '' - '' @ text)))"

text \<open>\<^verbatim>\<open>_call_gemini_api\<close>: \<^verbatim>\<open>except Exception\<close> turns every exception into the fallback text.\<close>

definition call_gemini_api :: "env \<Rightarrow> string \<Rightarrow> py_error + json" where
  "call_gemini_api e prompt =
     (case gemini_request e prompt of
        Inl err \<Rightarrow> Inr (JStr get_fallback_response)
      | Inr v \<Rightarrow> Inr v)"

text \<open>
  The place of the generated text in a well-formed response body:
  \<^verbatim>\<open>candidates[0].content.parts[0].text\<close>.
\<close>

definition envelope_text :: "json \<Rightarrow> json option" where
  "envelope_text d =
     (case d of
        JObj kvs \<Rightarrow>
          (case map_of kvs ''candidates'' of
             Some (JArr (JObj c0 # _)) \<Rightarrow>
               (case map_of c0 ''content'' of
                  Some (JObj content) \<Rightarrow>
                    (case map_of content ''parts'' of
                       Some (JArr (JObj p0 # _)) \<Rightarrow> map_of p0 ''text''
                     | _ \<Rightarrow> None)
                | _ \<Rightarrow> None)
           | _ \<Rightarrow> None)
      | _ \<Rightarrow> None)"

section \<open>ResponseExtractor\<close>

text \<open>The payload \<^verbatim>\<open>json_str\<close> that \<^verbatim>\<open>_parse_blueprint_response\<close> hands to the decoder.\<close>

definition extract_json_str :: "string \<Rightarrow> string" where
  "extract_json_str response =
     (if str_contains ''```json'' response then
        (let start = py_find response ''```json'' 0 + 7;
             stop = py_find response ''```'' start
         in py_strip (py_slice response start stop))
      else if str_contains ''```'' response then
        (let start = py_find response ''```'' 0 + 3;
             stop = py_find response ''```'' start
         in py_strip (py_slice response start stop))
      else py_strip response)"

text \<open>
  \<^verbatim>\<open>_parse_blueprint_response\<close>. Only \<^verbatim>\<open>json.JSONDecodeError\<close> is caught. The argument is what
  the gateway returned; on a value that is not a string the fence test or the string
  method raises.
\<close>

definition parse_blueprint_response :: "env \<Rightarrow> json \<Rightarrow> py_error + json" where
  "parse_blueprint_response e response =
     (case response of
        JStr text \<Rightarrow>
          (case loads e (extract_json_str text) of
             Inl JSONDecodeError \<Rightarrow> loads e get_fallback_response
           | r \<Rightarrow> r)
      | JArr _ \<Rightarrow> Inl AttributeError
      | JObj _ \<Rightarrow> Inl AttributeError
      | _ \<Rightarrow> Inl TypeError)"

text \<open>
  The payload selection in the words of the specification: after the opening fence, up
  to the next fence, or to the end of the text when there is none.
\<close>

definition payload_spec :: "string \<Rightarrow> string" where
  "payload_spec response =
     (case find_str ''```json'' response of
        Some i \<Rightarrow>
          (let rest = drop (i + 7) response
           in case find_str ''```'' rest of Some j \<Rightarrow> take j rest | None \<Rightarrow> rest)
      | None \<Rightarrow>
          (case find_str ''```'' response of
             Some i \<Rightarrow>
               (let rest = drop (i + 3) response
                in case find_str ''```'' rest of Some j \<Rightarrow> take j rest | None \<Rightarrow> rest)
           | None \<Rightarrow> response))"

text \<open>
  The same selection with list operations, as the code computes it: without a closing
  fence \<^verbatim>\<open>find\<close> returns -1 and the slice ends before the last character.
\<close>

definition payload_code :: "string \<Rightarrow> string" where
  "payload_code response =
     (case find_str ''```json'' response of
        Some i \<Rightarrow>
          (let rest = drop (i + 7) response
           in case find_str ''```'' rest of Some j \<Rightarrow> take j rest | None \<Rightarrow> butlast rest)
      | None \<Rightarrow>
          (case find_str ''```'' response of
             Some i \<Rightarrow>
               (let rest = drop (i + 3) response
                in case find_str ''```'' rest of Some j \<Rightarrow> take j rest | None \<Rightarrow> butlast rest)
           | None \<Rightarrow> response))"

text \<open>A fence is opened and not closed.\<close>

definition unclosed_fence :: "string \<Rightarrow> bool" where
  "unclosed_fence response =
     (case find_str ''```json'' response of
        Some i \<Rightarrow> find_str ''```'' (drop (i + 7) response) = None
      | None \<Rightarrow>
          (case find_str ''```'' response of
             Some i \<Rightarrow> find_str ''```'' (drop (i + 3) response) = None
           | None \<Rightarrow> False))"

section \<open>A reference JSON decoder\<close>

text \<open>
  Every statement about \<^verbatim>\<open>json.loads\<close> below holds for any decoder given in the environment.
  For concrete runs the environment needs one: this is a decoder of the JSON grammar as
  the standard library reads it (also \<^verbatim>\<open>NaN\<close> and the infinities; a repeated key keeps its
  first place and its last value), except that a float literal keeps its exact decimal
  value and a four-digit Unicode escape in a string is rejected. It reads the text one
  character at a time, with a stack of the arrays and objects that are still open.
\<close>

definition is_json_ws :: "char \<Rightarrow> bool" where
  "is_json_ws c = (c \<in> set [CHR 0x20, CHR 0x09, CHR 0x0A, CHR 0x0D])"

definition skip_ws :: "string \<Rightarrow> string" where
  "skip_ws s = dropWhile is_json_ws s"

definition is_digit :: "char \<Rightarrow> bool" where
  "is_digit c = (c \<in> set ''0123456789'')"

definition digits_val :: "string \<Rightarrow> nat" where
  "digits_val ds = foldl (\<lambda>a c. 10 * a + (of_char c - 48)) 0 ds"

definition unescape :: "char \<Rightarrow> char option" where
  "unescape c =
     (if c = CHR 0x22 then Some (CHR 0x22)
      else if c = CHR 0x5C then Some (CHR 0x5C)
      else if c = CHR ''/'' then Some (CHR ''/'')
      else if c = CHR ''b'' then Some (CHR 0x08)
      else if c = CHR ''f'' then Some (CHR 0x0C)
      else if c = CHR ''n'' then Some (CHR 0x0A)
      else if c = CHR ''r'' then Some (CHR 0x0D)
      else if c = CHR ''t'' then Some (CHR 0x09)
      else None)"

text \<open>An optional exponent: \<^verbatim>\<open>e\<close> or \<^verbatim>\<open>E\<close>, an optional sign, digits.\<close>

definition scan_exponent :: "string \<Rightarrow> int option \<times> string" where
  "scan_exponent s =
     (case s of
        [] \<Rightarrow> (None, s)
      | c # cs \<Rightarrow>
          if c = CHR ''e'' \<or> c = CHR ''E'' then
            (let sg = (case cs of [] \<Rightarrow> 1 | d # _ \<Rightarrow> if d = CHR ''-'' then - 1 else 1);
                 ds = (case cs of [] \<Rightarrow> cs
                       | d # r \<Rightarrow> if d = CHR ''-'' \<or> d = CHR ''+'' then r else cs)
             in if takeWhile is_digit ds = [] then (None, s)
                else (Some (sg * int (digits_val (takeWhile is_digit ds))), dropWhile is_digit ds))
          else (None, s))"

text \<open>A number: an optional minus sign, an integer part without a leading zero, an
  optional fraction, an optional exponent. It is an integer when it has neither fraction
  nor exponent, a float otherwise.\<close>

definition scan_number :: "string \<Rightarrow> (json \<times> string) option" where
  "scan_number s =
     (let neg = (case s of [] \<Rightarrow> False | c # _ \<Rightarrow> c = CHR ''-'');
          s1 = (if neg then tl s else s);
          ds = takeWhile is_digit s1
      in if ds = [] then None
         else
           (let ip = (if hd ds = CHR ''0'' then ''0'' else ds);
                s2 = drop (length ip) s1;
                fr = (case s2 of
                        [] \<Rightarrow> []
                      | c # cs \<Rightarrow> if c = CHR ''.'' then takeWhile is_digit cs else []);
                s3 = (if fr = [] then s2 else drop (Suc (length fr)) s2);
                ex = scan_exponent s3;
                sign = (if neg then - 1 else 1)
            in if fr = [] \<and> fst ex = None then Some (JInt (sign * int (digits_val ip)), s3)
               else
                 (let m = of_nat (digits_val ip) + of_nat (digits_val fr) / 10 ^ length fr;
                      v = (case fst ex of
                             None \<Rightarrow> m
                           | Some k \<Rightarrow> if k < 0 then m / 10 ^ nat (- k) else m * 10 ^ nat k)
                  in Some (JFloat (Fin (of_int sign * v)), snd ex))))"

text \<open>The value of a maximal run of word characters: a literal name or a number.\<close>

definition is_word_char :: "char \<Rightarrow> bool" where
  "is_word_char c =
     (c \<in> set ''0123456789+-.abcdefghijklmnopqrstuvwxyzABCDEFGHIJKLMNOPQRSTUVWXYZ'')"

definition word_value :: "string \<Rightarrow> json option" where
  "word_value w =
     (if w = ''null'' then Some JNull
      else if w = ''true'' then Some (JBool True)
      else if w = ''false'' then Some (JBool False)
      else if w = ''NaN'' then Some (JFloat NaN)
      else if w = ''Infinity'' then Some (JFloat PInf)
      else if w = ''-Infinity'' then Some (JFloat NInf)
      else (case scan_number w of
              Some (v, r) \<Rightarrow> if r = [] then Some v else None
            | None \<Rightarrow> None))"

text \<open>
  What the decoder is in the middle of: before a value (where a closing bracket may or
  may not come instead), before a key, before the colon, after a value, inside a string
  or a key (with the characters read so far, and whether a backslash is pending), inside
  a word, or failed.
\<close>

datatype mode =
    Val
  | ValOrEnd
  | KeyOrEnd
  | Key
  | Colon
  | Next
  | Str string bool
  | KeyStr string bool
  | Word string
  | Failed

text \<open>An open array with its items so far; an open object with its members so far and
  the key that waits for its value.\<close>

datatype frame = ArrF "json list" | ObjF "(string \<times> json) list" "string option"

type_synonym dstate = "mode \<times> frame list \<times> json option"

definition failed :: dstate where
  "failed = (Failed, [], None)"

text \<open>A value is complete: it goes into the innermost open array or object, or it is
  the result.\<close>

definition emit :: "json \<Rightarrow> frame list \<Rightarrow> dstate" where
  "emit v fs =
     (case fs of
        [] \<Rightarrow> (Next, [], Some v)
      | ArrF xs # rest \<Rightarrow> (Next, ArrF (xs @ [v]) # rest, None)
      | ObjF kvs (Some k) # rest \<Rightarrow> (Next, ObjF (AList.update k v kvs) None # rest, None)
      | ObjF kvs None # rest \<Rightarrow> failed)"

definition step_value :: "bool \<Rightarrow> frame list \<Rightarrow> json option \<Rightarrow> char \<Rightarrow> dstate" where
  "step_value may_end fs res c =
     (if is_json_ws c then (if may_end then ValOrEnd else Val, fs, res)
      else if c = CHR 0x22 then (Str [] False, fs, res)
      else if c = CHR ''{'' then (KeyOrEnd, ObjF [] None # fs, res)
      else if c = CHR ''['' then (ValOrEnd, ArrF [] # fs, res)
      else if c = CHR '']'' \<and> may_end then
        (case fs of ArrF xs # rest \<Rightarrow> emit (JArr xs) rest | _ \<Rightarrow> failed)
      else if is_word_char c then (Word [c], fs, res)
      else failed)"

definition step_key :: "bool \<Rightarrow> frame list \<Rightarrow> json option \<Rightarrow> char \<Rightarrow> dstate" where
  "step_key may_end fs res c =
     (if is_json_ws c then (if may_end then KeyOrEnd else Key, fs, res)
      else if c = CHR 0x22 then (KeyStr [] False, fs, res)
      else if c = CHR ''}'' \<and> may_end then
        (case fs of ObjF kvs None # rest \<Rightarrow> emit (JObj kvs) rest | _ \<Rightarrow> failed)
      else failed)"

definition step_next :: "frame list \<Rightarrow> json option \<Rightarrow> char \<Rightarrow> dstate" where
  "step_next fs res c =
     (if is_json_ws c then (Next, fs, res)
      else if c = CHR '','' then
        (case fs of
           ArrF xs # rest \<Rightarrow> (Val, fs, res)
         | ObjF kvs None # rest \<Rightarrow> (Key, fs, res)
         | _ \<Rightarrow> failed)
      else if c = CHR '']'' then
        (case fs of ArrF xs # rest \<Rightarrow> emit (JArr xs) rest | _ \<Rightarrow> failed)
      else if c = CHR ''}'' then
        (case fs of ObjF kvs None # rest \<Rightarrow> emit (JObj kvs) rest | _ \<Rightarrow> failed)
      else failed)"

text \<open>One character inside a string literal: the mode to go on with, or the finished
  string.\<close>

definition step_string :: "string \<Rightarrow> bool \<Rightarrow> char \<Rightarrow> (string \<times> bool) option + string" where
  "step_string acc esc c =
     (if esc then
        (case unescape c of None \<Rightarrow> Inl None | Some ch \<Rightarrow> Inl (Some (acc @ [ch], False)))
      else if c = CHR 0x22 then Inr acc
      else if c = CHR 0x5C then Inl (Some (acc, True))
      else if of_char c < (32 :: nat) then Inl None
      else Inl (Some (acc @ [c], False)))"

definition step :: "dstate \<Rightarrow> char \<Rightarrow> dstate" where
  "step st c =
     (case st of (m, fs, res) \<Rightarrow>
        (case m of
           Val \<Rightarrow> step_value False fs res c
         | ValOrEnd \<Rightarrow> step_value True fs res c
         | KeyOrEnd \<Rightarrow> step_key True fs res c
         | Key \<Rightarrow> step_key False fs res c
         | Colon \<Rightarrow>
             if is_json_ws c then st
             else if c = CHR '':'' then (Val, fs, res)
             else failed
         | Next \<Rightarrow> step_next fs res c
         | Str acc esc \<Rightarrow>
             (case step_string acc esc c of
                Inl None \<Rightarrow> failed
              | Inl (Some (acc', esc')) \<Rightarrow> (Str acc' esc', fs, res)
              | Inr s \<Rightarrow> emit (JStr s) fs)
         | KeyStr acc esc \<Rightarrow>
             (case step_string acc esc c of
                Inl None \<Rightarrow> failed
              | Inl (Some (acc', esc')) \<Rightarrow> (KeyStr acc' esc', fs, res)
              | Inr k \<Rightarrow>
                  (case fs of
                     ObjF kvs None # rest \<Rightarrow> (Colon, ObjF kvs (Some k) # rest, res)
                   | _ \<Rightarrow> failed))
         | Word w \<Rightarrow>
             if is_word_char c then (Word (w @ [c]), fs, res)
             else (case word_value w of
                     None \<Rightarrow> failed
                   | Some v \<Rightarrow> (case emit v fs of (m', fs', res') \<Rightarrow> step_next fs' res' c))
         | Failed \<Rightarrow> failed))"

definition finish :: "dstate \<Rightarrow> py_error + json" where
  "finish st =
     (case st of
        (Next, [], Some v) \<Rightarrow> Inr v
      | (Word w, [], res) \<Rightarrow>
          (case word_value w of None \<Rightarrow> Inl JSONDecodeError | Some v \<Rightarrow> Inr v)
      | _ \<Rightarrow> Inl JSONDecodeError)"

definition json_loads :: "string \<Rightarrow> py_error + json" where
  "json_loads s = finish (foldl step (Val, [], None) s)"

text \<open>The fallback document as a value: what a decoder makes of the fallback text.\<close>

definition fallback_blueprint :: json where
  "fallback_blueprint =
     JObj
       [(''building_info'',
         JObj
          [(''type'', JStr ''residential_house''),
           (''total_area'', JFloat (Fin 150)), (''floors'', JInt 2),
           (''occupancy'', JStr ''family''),
           (''special_features'', JArr [JStr ''parking'', JStr ''garden'']),
           (''budget_level'', JStr ''standard'')]),
        (''floor_plans'',
         JArr
          [JObj
            [(''floor_number'', JInt 1), (''area'', JFloat (Fin 75)),
             (''rooms'',
              JArr
               [JObj
                 [(''name'', JStr ''Living Room''),
                  (''type'', JStr ''living''),
                  (''dimensions'',
                   JObj
                    [(''width'', JFloat (Fin 6)),
                     (''length'', JFloat (Fin 8)),
                     (''area'', JFloat (Fin 48))]),
                  (''position'', JObj [(''x'', JInt 0), (''y'', JInt 0)]),
                  (''direction'', JStr ''Center''),
                  (''features'',
                   JArr [JStr ''natural_light'', JStr ''main_entrance'']),
                  (''color'', JStr ''#e3f2fd'')],
                JObj
                 [(''name'', JStr ''Kitchen''),
                  (''type'', JStr ''kitchen''),
                  (''dimensions'',
                   JObj
                    [(''width'', JFloat (Fin 4)),
                     (''length'', JFloat (Fin 5)),
                     (''area'', JFloat (Fin 20))]),
                  (''position'', JObj [(''x'', JInt 8), (''y'', JInt 0)]),
                  (''direction'', JStr ''East''),
                  (''features'',
                   JArr [JStr ''ventilation'', JStr ''plumbing'']),
                  (''color'', JStr ''#e8f5e8'')]])],
           JObj
            [(''floor_number'', JInt 2), (''area'', JFloat (Fin 75)),
             (''rooms'',
              JArr
               [JObj
                 [(''name'', JStr ''Master Bedroom''),
                  (''type'', JStr ''bedroom''),
                  (''dimensions'',
                   JObj
                    [(''width'', JFloat (Fin 5)),
                     (''length'', JFloat (Fin 6)),
                     (''area'', JFloat (Fin 30))]),
                  (''position'', JObj [(''x'', JInt 0), (''y'', JInt 0)]),
                  (''direction'', JStr ''North''),
                  (''features'',
                   JArr [JStr ''natural_light'', JStr ''ensuite'']),
                  (''color'', JStr ''#f3e5f5'')]])]]),
        (''design_constraints'',
         JObj
          [(''building_codes'', JArr [JStr ''local_residential_code'']),
           (''min_room_dimensions'',
            JObj
             [(''bedroom'',
               JObj [(''min_area'', JInt 12), (''min_width'', JInt 3)]),
              (''bathroom'',
               JObj [(''min_area'', JInt 6), (''min_width'', JInt 2)])])]),
        (''metadata'',
         JObj
          [(''created_date'', JStr ''2025-01-01T00:00:00''),
           (''version'', JStr ''1.0''),
           (''generator'', JStr ''Gemini Blueprint System'')])]"

section \<open>PromptBuilder\<close>

definition get_room_suggestions :: "string \<Rightarrow> string list" where
  "get_room_suggestions btype =
     (case map_of
        [(''residential_house'', [''living_room'', ''kitchen'', ''bedrooms'', ''bathrooms'', ''dining_room'']),
         (''hospital'', [''reception'', ''waiting_area'', ''examination_rooms'', ''wards'',
            ''operating_theater'', ''pharmacy'', ''laboratory'']),
         (''office_building'', [''reception'', ''offices'', ''conference_rooms'', ''break_room'', ''storage'']),
         (''school'', [''classrooms'', ''library'', ''cafeteria'', ''gymnasium'', ''administration_office'']),
         (''restaurant'', [''dining_area'', ''kitchen'', ''storage'', ''restrooms'', ''bar_area'']),
         (''hotel'', [''lobby'', ''guest_rooms'', ''restaurant'', ''conference_rooms'', ''fitness_center''])]
        btype of
        None \<Rightarrow> [''main_area'', ''secondary_areas'', ''utilities'']
      | Some rooms \<Rightarrow> rooms)"

text \<open>\<^verbatim>\<open>total_area / floors\<close>: dividing by zero raises before the floats are touched.\<close>

definition py_truediv :: "env \<Rightarrow> pyfloat \<Rightarrow> int \<Rightarrow> py_error + pyfloat" where
  "py_truediv e a n = (if n = 0 then Inl ZeroDivisionError else float_div e a n)"

text \<open>
  \<^verbatim>\<open>_generate_initial_prompt\<close>: the only expression of the template that can raise is the
  area of one floor; the clock is read once for the metadata of the template.
\<close>

definition generate_initial_prompt :: "env \<Rightarrow> requirements \<Rightarrow> py_error + string" where
  "generate_initial_prompt e reqs =
     (let room_suggestions = get_room_suggestions (building_type reqs)
      in bindE (py_truediv e (total_area reqs) (floors reqs)) (\<lambda>per_floor.
           Inr (render_initial e reqs room_suggestions per_floor (clock e 0))))"

definition generate_iteration_prompt :: "env \<Rightarrow> json \<Rightarrow> string \<Rightarrow> string" where
  "generate_iteration_prompt e current_blueprint user_feedback =
     render_iteration e current_blueprint user_feedback"

definition generate_optimization_prompt :: "env \<Rightarrow> json \<Rightarrow> string list \<Rightarrow> string" where
  "generate_optimization_prompt e current_blueprint optimization_goals =
     render_optimization e current_blueprint optimization_goals"

section \<open>SessionHistoryStore\<close>

text \<open>One entry of \<^verbatim>\<open>design_history\<close>, with the six keys of the dictionary.\<close>

record design_version =
  version :: int
  blueprint :: json
  feedback :: string
  timestamp :: string
  changes_made :: "string list"
  current_floor :: int

text \<open>The mutable attributes of a \<^verbatim>\<open>GeminiBlueprintGenerator\<close>.\<close>

record generator =
  design_history :: "design_version list"
  self_current_floor :: int

definition init_generator :: generator where
  "init_generator = \<lparr>design_history = [], self_current_floor = 1\<rparr>"

definition generate_initial_blueprint ::
  "env \<Rightarrow> requirements \<Rightarrow> generator \<Rightarrow> py_error + json \<times> generator" where
  "generate_initial_blueprint e reqs g =
     bindE (generate_initial_prompt e reqs) (\<lambda>prompt.
     bindE (call_gemini_api e prompt) (\<lambda>response.
     bindE (parse_blueprint_response e response) (\<lambda>parsed.
     bindE (validate_and_fix_blueprint parsed (Some reqs)) (\<lambda>bp.
       Inr (bp, g\<lparr>design_history := design_history g @
              [\<lparr>version = 1,
                blueprint = bp,
                feedback = ''Initial generation'',
                timestamp = clock e 1,
                changes_made = [''Initial creation''],
                current_floor = 1\<rparr>]\<rparr>)))))"

definition iterate_design ::
  "env \<Rightarrow> string \<Rightarrow> generator \<Rightarrow> py_error + json \<times> generator" where
  "iterate_design e user_feedback g =
     (if design_history g = [] then Inl (ValueError ''No existing design to iterate on'')
      else
        (let current_design = blueprint (last (design_history g));
             prompt = generate_iteration_prompt e current_design user_feedback
         in bindE (call_gemini_api e prompt) (\<lambda>response.
            bindE (parse_blueprint_response e response) (\<lambda>parsed.
            bindE (validate_and_fix_blueprint parsed None) (\<lambda>updated_blueprint.
              Inr (updated_blueprint, g\<lparr>design_history := design_history g @
                     [\<lparr>version = int (length (design_history g)) + 1,
                       blueprint = updated_blueprint,
                       feedback = user_feedback,
                       timestamp = clock e 0,
                       changes_made = [''User feedback integration''],
                       current_floor = self_current_floor g\<rparr>]\<rparr>))))))"

definition update_floor_view :: "int \<Rightarrow> generator \<Rightarrow> py_error + json \<times> generator" where
  "update_floor_view floor_number g =
     (if design_history g = [] then Inl (ValueError ''No existing design to view'')
      else
        (let g1 = g\<lparr>self_current_floor := floor_number\<rparr>;
             current_blueprint = blueprint (last (design_history g1));
             h = design_history g1
         in Inr (current_blueprint,
              g1\<lparr>design_history :=
                   h[length h - 1 := (last h)\<lparr>current_floor := floor_number\<rparr>]\<rparr>)))"

definition optimize_design ::
  "env \<Rightarrow> string list \<Rightarrow> generator \<Rightarrow> py_error + json \<times> generator" where
  "optimize_design e optimization_goals g =
     (if design_history g = [] then Inl (ValueError ''No existing design to optimize'')
      else
        (let current_design = blueprint (last (design_history g));
             prompt = generate_optimization_prompt e current_design optimization_goals
         in bindE (call_gemini_api e prompt) (\<lambda>response.
            bindE (parse_blueprint_response e response) (\<lambda>parsed.
            bindE (validate_and_fix_blueprint parsed None) (\<lambda>optimized_blueprint.
              Inr (optimized_blueprint, g\<lparr>design_history := design_history g @
                     [\<lparr>version = int (length (design_history g)) + 1,
                       blueprint = optimized_blueprint,
                       feedback = ''Optimization for: '' @ join '', '' optimization_goals,
                       timestamp = clock e 0,
                       changes_made = [''Design optimization''],
                       current_floor = self_current_floor g\<rparr>]\<rparr>))))))"

text \<open>
  \<^verbatim>\<open>get_current_floor\<close> of the service: the floor the last entry of a history reports,
  1 for an empty history.
\<close>

definition get_current_floor :: "design_version list \<Rightarrow> int" where
  "get_current_floor history = (if history = [] then 1 else current_floor (last history))"

subsection \<open>The service around the generator\<close>

definition BUILDING_TYPES :: "string list" where
  "BUILDING_TYPES =
     [''residential_house'', ''apartment_complex'', ''office_building'', ''retail_store'',
      ''restaurant'', ''warehouse'', ''school'', ''hospital'', ''clinic'', ''hotel'',
      ''shopping_mall'', ''gym_fitness_center'', ''library'', ''community_center'',
      ''industrial_facility'']"

text \<open>
  The module has one generator object and the dictionary \<^verbatim>\<open>design_storage\<close> from session
  identifiers to histories. \<^verbatim>\<open>generate_blueprint\<close> (\<^verbatim>\<open>POST /api/generate\<close>) runs the
  generator as it stands, draws a fresh identifier and stores a copy of the generator's
  history under it. Every exception leaves as an HTTP error of status 500.
\<close>

record server =
  the_generator :: generator
  design_storage :: "(string \<times> design_version list) list"

datatype http_cause = InvalidBuildingType | Raised py_error

datatype http_exception = HTTPException int http_cause

record blueprint_response =
  success :: bool
  response_blueprint :: "json option"
  message :: string
  response_version :: int
  response_timestamp :: string
  session_id :: "string option"

definition generate_blueprint ::
  "env \<Rightarrow> string \<Rightarrow> requirements \<Rightarrow> server \<Rightarrow> http_exception + blueprint_response \<times> server" where
  "generate_blueprint e uuid reqs srv =
     (if building_type reqs \<notin> set BUILDING_TYPES then Inl (HTTPException 500 InvalidBuildingType)
      else
        (case generate_initial_blueprint e reqs (the_generator srv) of
           Inl err \<Rightarrow> Inl (HTTPException 500 (Raised err))
         | Inr (bp, g) \<Rightarrow>
             Inr (\<lparr>success = True,
                   response_blueprint = Some bp,
                   message = ''Blueprint generated successfully'',
                   response_version = 1,
                   response_timestamp = clock e 2,
                   session_id = Some uuid\<rparr>,
                  srv\<lparr>the_generator := g,
                      design_storage := AList.update uuid (design_history g) (design_storage srv)\<rparr>)))"

section \<open>Sample environments\<close>

text \<open>
  An environment for concrete runs: the HTTP service answers every prompt with the given
  outcome, the decoder is the reference decoder, the clock stands still, float division
  is exact, and the prompts are their parts joined.
\<close>

definition sample_env :: "http_outcome \<Rightarrow> env" where
  "sample_env outcome =
     \<lparr>post = (\<lambda>prompt. outcome),
      loads = json_loads,
      clock = (\<lambda>k. ''2026-01-15T09:30:00''),
      float_div = (\<lambda>a n. case a of Fin r \<Rightarrow> Inr (Fin (r / of_int n)) | _ \<Rightarrow> Inr a),
      render_initial = (\<lambda>reqs rooms per_floor stamp. building_type reqs @ '' '' @ join '', '' rooms),
      render_iteration = (\<lambda>bp user_feedback. user_feedback),
      render_optimization = (\<lambda>bp goals. join '', '' goals)\<rparr>"

text \<open>The service is down; the service answers with a body that has the given text.\<close>

definition env_down :: env where
  "env_down = sample_env (Response 503 ''Service Unavailable'' (Inl JSONDecodeError))"

definition envelope :: "string \<Rightarrow> json" where
  "envelope generated =
     JObj [(''candidates'',
       JArr [JObj [(''content'', JObj [(''parts'', JArr [JObj [(''text'', JStr generated)]])])]])]"

definition env_answer :: "string \<Rightarrow> env" where
  "env_answer generated = sample_env (Response 200 '''' (Inr (envelope generated)))"


text \<open>The requirements of the end-to-end scenario.\<close>

definition scenario_requirements :: requirements where
  "scenario_requirements =
     \<lparr>building_type = ''residential_house'', total_area = Fin 150, floors = 2,
      occupancy = ''family'', special_features = [], budget_level = ''standard''\<rparr>"

section \<open>Reading histories and documents\<close>

text \<open>The version numbers of a history are 1, 2, 3, ... in this order.\<close>

definition versions_ok :: "design_version list \<Rightarrow> bool" where
  "versions_ok h = (map version h = map int [1..<Suc (length h)])"

text \<open>The value under a key of a dictionary.\<close>

definition field :: "string \<Rightarrow> json \<Rightarrow> json option" where
  "field k v = (case v of JObj kvs \<Rightarrow> map_of kvs k | _ \<Rightarrow> None)"

definition floor_numbers :: "json \<Rightarrow> json option list" where
  "floor_numbers bp = map (field ''floor_number'') (floor_plans_of bp)"

text \<open>Name and direction of every room, floor by floor.\<close>

definition room_directions :: "json \<Rightarrow> (json option \<times> json option) list list" where
  "room_directions bp =
     map (\<lambda>fp. map (\<lambda>r. (field ''name'' r, field ''direction'' r)) (rooms_of_floor fp))
       (floor_plans_of bp)"

section \<open>A run with the service down\<close>

text \<open>
  The entry that \<^verbatim>\<open>generate_initial_blueprint\<close> appends when the service is down, and the
  generator after one and after two such calls.
\<close>

definition first_entry :: design_version where
  "first_entry =
     \<lparr>version = 1,
      blueprint = fallback_blueprint,
      feedback = ''Initial generation'',
      timestamp = ''2026-01-15T09:30:00'',
      changes_made = [''Initial creation''],
      current_floor = 1\<rparr>"

definition gen1 :: generator where
  "gen1 = \<lparr>design_history = [first_entry], self_current_floor = 1\<rparr>"

definition gen2 :: generator where
  "gen2 = \<lparr>design_history = [first_entry, first_entry], self_current_floor = 1\<rparr>"

text \<open>The service after a first session, and the answer to a second \<^verbatim>\<open>POST /api/generate\<close>.\<close>

definition server1 :: server where
  "server1 = \<lparr>the_generator = gen1, design_storage = [(''session-a'', [first_entry])]\<rparr>"

definition server2 :: server where
  "server2 =
     \<lparr>the_generator = gen2,
      design_storage = [(''session-a'', [first_entry]), (''session-b'', [first_entry, first_entry])]\<rparr>"

definition second_response :: blueprint_response where
  "second_response =
     \<lparr>success = True,
      response_blueprint = Some fallback_blueprint,
      message = ''Blueprint generated successfully'',
      response_version = 1,
      response_timestamp = ''2026-01-15T09:30:00'',
      session_id = Some ''session-b''\<rparr>"

section \<open>Kinds of failure\<close>


text \<open>A generator state that comes after another one by feedback, optimisation and
  floor selection only.\<close>

inductive later :: "generator \<Rightarrow> generator \<Rightarrow> bool" where
  same: "later g g"
| iterated: "later g g1 \<Longrightarrow> iterate_design e user_feedback g1 = Inr (bp, g2) \<Longrightarrow> later g g2"
| optimized: "later g g1 \<Longrightarrow> optimize_design e goals g1 = Inr (bp, g2) \<Longrightarrow> later g g2"
| viewed: "later g g1 \<Longrightarrow> update_floor_view n g1 = Inr (bp, g2) \<Longrightarrow> later g g2"

section \<open>Direction computation\<close>

lemma bindE_simps [simp]:
  "bindE (Inl e) f = Inl e"
  "bindE (Inr x) f = f x"
  by (simp_all add: bindE_def)

lemma py_and_simps [simp]:
  "py_and (Inl e) b = Inl e"
  "py_and (Inr True) b = b"
  "py_and (Inr False) b = Inr False"
  "py_and (Inr a) (Inr c) = Inr (a \<and> c)"
  by (simp_all add: py_and_def)

lemma py_cmp_num:
  assumes "num_val v = Some r"
  shows "py_lt v c = Inr (r < of_int c)" and "py_gt v c = Inr (r > of_int c)"
  using assms
  by (auto simp: num_val_def py_lt_def py_gt_def float_lt_def float_gt_def
      split: json.splits pyfloat.splits if_splits)

lemma direction_chain_spec:
  assumes "num_val x = Some xr" and "num_val y = Some yr"
  shows "direction_chain x y = Inr (JStr (direction_spec xr yr))"
  unfolding direction_chain_def direction_spec_def
  by (simp add: py_cmp_num [OF assms(1)] py_cmp_num [OF assms(2)])

lemma calculate_room_direction_numeric:
  assumes "map_of kvs ''position'' = Some (JObj pos)"
    and "num_val (case map_of pos ''x'' of None \<Rightarrow> JInt 0 | Some v \<Rightarrow> v) = Some xr"
    and "num_val (case map_of pos ''y'' of None \<Rightarrow> JInt 0 | Some v \<Rightarrow> v) = Some yr"
  shows "calculate_room_direction (JObj kvs) = Inr (JStr (direction_spec xr yr))"
  using assms
  by (auto simp: calculate_room_direction_def py_get_def direction_chain_spec
      split: option.splits)

lemma calculate_room_direction_default:
  assumes "map_of kvs ''position'' = None"
  shows "calculate_room_direction (JObj kvs) = Inr (JStr ''Center'')"
proof -
  have zero: "num_val (JInt 0) = Some 0"
    by (simp add: num_val_def)
  show ?thesis
    using assms
    by (simp add: calculate_room_direction_def py_get_def direction_chain_spec [OF zero zero]
        direction_spec_def)
qed

text \<open>
  Claim C2. The direction of a room depends on nothing but its position: the stored
  \<open>x\<close> and \<open>y\<close> (each 0 when absent) go through the threshold rule of the specification,
  diagonal first, then West/East, then North/South, then Center; the nine sample positions
  give the nine directions.
\<close>

theorem calculate_room_direction_spec:
  "(\<forall>kvs pos xr yr.
      map_of kvs ''position'' = Some (JObj pos) \<and>
      num_val (case map_of pos ''x'' of None \<Rightarrow> JInt 0 | Some v \<Rightarrow> v) = Some xr \<and>
      num_val (case map_of pos ''y'' of None \<Rightarrow> JInt 0 | Some v \<Rightarrow> v) = Some yr
      \<longrightarrow> calculate_room_direction (JObj kvs) = Inr (JStr (direction_spec xr yr)))
   \<and> (\<forall>kvs. map_of kvs ''position'' = None
      \<longrightarrow> calculate_room_direction (JObj kvs) = Inr (JStr ''Center''))
   \<and> (\<forall>kvs kvs'. map_of kvs ''position'' = map_of kvs' ''position''
      \<longrightarrow> calculate_room_direction (JObj kvs) = calculate_room_direction (JObj kvs'))
   \<and> calculate_room_direction (room_at (JInt (- 8)) (JInt 8)) = Inr (JStr ''Northwest'')
   \<and> calculate_room_direction (room_at (JInt 8) (JInt 8)) = Inr (JStr ''Northeast'')
   \<and> calculate_room_direction (room_at (JInt (- 8)) (JInt (- 8))) = Inr (JStr ''Southwest'')
   \<and> calculate_room_direction (room_at (JInt 8) (JInt (- 8))) = Inr (JStr ''Southeast'')
   \<and> calculate_room_direction (room_at (JInt (- 3)) (JInt 0)) = Inr (JStr ''West'')
   \<and> calculate_room_direction (room_at (JInt 3) (JInt 0)) = Inr (JStr ''East'')
   \<and> calculate_room_direction (room_at (JInt 0) (JInt 3)) = Inr (JStr ''North'')
   \<and> calculate_room_direction (room_at (JInt 0) (JInt (- 3))) = Inr (JStr ''South'')
   \<and> calculate_room_direction (room_at (JInt 0) (JInt 0)) = Inr (JStr ''Center'')"
proof -
  note general = calculate_room_direction_numeric
  note absent = calculate_room_direction_default
  have only_pos: "calculate_room_direction (JObj kvs) = calculate_room_direction (JObj kvs')"
    if "map_of kvs ''position'' = map_of kvs' ''position''" for kvs kvs'
    using that by (simp add: calculate_room_direction_def py_get_def)
  have sample: "calculate_room_direction (room_at (JInt a) (JInt b))
      = Inr (JStr (direction_spec (of_int a) (of_int b)))" for a b
    unfolding room_at_def
    by (rule general [where pos = "[(''x'', JInt a), (''y'', JInt b)]"])
      (simp_all add: num_val_def)
  show ?thesis
  proof (intro conjI allI impI)
    fix kvs pos xr yr
    assume "map_of kvs ''position'' = Some (JObj pos) \<and>
      num_val (case map_of pos ''x'' of None \<Rightarrow> JInt 0 | Some v \<Rightarrow> v) = Some xr \<and>
      num_val (case map_of pos ''y'' of None \<Rightarrow> JInt 0 | Some v \<Rightarrow> v) = Some yr"
    then show "calculate_room_direction (JObj kvs) = Inr (JStr (direction_spec xr yr))"
      by (elim conjE) (rule general)
  next
    fix kvs :: "(string \<times> json) list"
    assume "map_of kvs ''position'' = None"
    then show "calculate_room_direction (JObj kvs) = Inr (JStr ''Center'')"
      by (rule absent)
  next
    fix kvs kvs' :: "(string \<times> json) list"
    assume "map_of kvs ''position'' = map_of kvs' ''position''"
    then show "calculate_room_direction (JObj kvs) = calculate_room_direction (JObj kvs')"
      by (rule only_pos)
  qed (simp_all add: sample direction_spec_def)
qed

theorem calculate_room_direction_spec_witness:
  "calculate_room_direction
     (JObj [(''name'', JStr ''Study''),
            (''position'', JObj [(''x'', JFloat (Fin (- 11 / 2))), (''y'', JInt 6)])])
   = Inr (JStr ''Northwest'')"
proof -
  have "calculate_room_direction
     (JObj [(''name'', JStr ''Study''),
            (''position'', JObj [(''x'', JFloat (Fin (- 11 / 2))), (''y'', JInt 6)])])
     = Inr (JStr (direction_spec (- 11 / 2) 6))"
    by (rule calculate_room_direction_spec [THEN conjunct1, rule_format,
          of _ "[(''x'', JFloat (Fin (- 11 / 2))), (''y'', JInt 6)]"])
      (simp add: num_val_def)
  then show ?thesis
    by (simp add: direction_spec_def)
qed

section \<open>Normalisation of rooms\<close>

lemma direction_chain_in_enum:
  "direction_chain x y = Inr d \<Longrightarrow> \<exists>s \<in> set ROOM_DIRECTIONS. d = JStr s"
  unfolding direction_chain_def ROOM_DIRECTIONS_def
  by (auto simp: bindE_def py_and_def split: sum.splits if_splits)

lemma calculate_room_direction_in_enum:
  "calculate_room_direction room = Inr d \<Longrightarrow> \<exists>s \<in> set ROOM_DIRECTIONS. d = JStr s"
  unfolding calculate_room_direction_def
  by (auto simp: bindE_def split: sum.splits dest: direction_chain_in_enum)

lemma color_map_hex: "\<forall>c \<in> set (map snd color_map). is_hex_color c"
  by (simp add: color_map_def is_hex_color_def is_hex_digit_def)

lemma get_default_room_color_hex:
  assumes "get_default_room_color t = Inr c"
  shows "\<exists>s. c = JStr s \<and> is_hex_color s"
proof -
  have d: "is_hex_color ''#f5f5f5''"
    by (simp add: is_hex_color_def is_hex_digit_def)
  have m: "is_hex_color v" if "map_of color_map k = Some v" for k v
    using color_map_hex map_of_SomeD [OF that] by force
  show ?thesis
    using assms d m
    by (auto simp: get_default_room_color_def split: json.splits option.splits)
qed

lemma fix_room_obj_case:
  assumes "fix_room (JObj kvs) = Inr r'"
  shows "case r' of JObj kvs' \<Rightarrow> room_fixed kvs kvs' | _ \<Rightarrow> False"
proof (cases "map_of kvs ''direction''")
  case None
  then obtain d where d: "calculate_room_direction (JObj kvs) = Inr d"
    using assms by (auto simp: fix_room_def py_contains_def bindE_def split: sum.splits)
  then obtain s where s: "d = JStr s" "s \<in> set ROOM_DIRECTIONS"
    using calculate_room_direction_in_enum by blast
  show ?thesis
    using assms None d s
    by (auto simp: fix_room_def py_contains_def py_setitem_def py_get_def room_fixed_def
        update_conv' bindE_def
        split: sum.splits option.splits if_splits dest!: get_default_room_color_hex)
next
  case (Some a)
  then show ?thesis
    using assms
    by (auto simp: fix_room_def py_contains_def py_setitem_def py_get_def room_fixed_def
        update_conv' bindE_def
        split: sum.splits option.splits if_splits dest!: get_default_room_color_hex)
qed

lemma fix_room_obj:
  assumes "fix_room (JObj kvs) = Inr r'"
  shows "\<exists>kvs'. r' = JObj kvs' \<and> room_fixed kvs kvs'"
  using fix_room_obj_case [OF assms] by (cases r') auto

lemma mapE_all2:
  "mapE f xs = Inr ys \<Longrightarrow> list_all2 (\<lambda>x y. f x = Inr y) xs ys"
  by (induction xs arbitrary: ys) (auto simp: bindE_def split: sum.splits)

lemma fix_floor_plan_rooms:
  assumes "fix_floor_plan fp = Inr fp'"
  shows "list_all2 (\<lambda>r r'. fix_room r = Inr r') (rooms_of_floor fp) (rooms_of_floor fp')"
  using assms
  by (auto simp: fix_floor_plan_def rooms_of_floor_def py_get_def py_iter_def put_back_def
      with_items_def update_conv' bindE_def
      split: json.splits option.splits sum.splits dest: mapE_all2)

lemma validate_floor_plans:
  assumes "validate_and_fix_blueprint bp reqs = Inr bp'"
  shows "list_all2 (\<lambda>fp fp'. fix_floor_plan fp = Inr fp') (floor_plans_of bp) (floor_plans_of bp')"
  using assms
  by (auto simp: validate_and_fix_blueprint_def floor_plans_of_def py_get_def py_iter_def
      put_back_def with_items_def update_conv' bindE_def
      split: json.splits option.splits sum.splits dest: mapE_all2)

lemma list_all2_concat:
  "list_all2 (list_all2 R) xss yss \<Longrightarrow> list_all2 R (concat xss) (concat yss)"
  by (induction xss yss rule: list_all2_induct) (auto intro: list_all2_appendI)

lemma validate_all_rooms:
  assumes "validate_and_fix_blueprint bp reqs = Inr bp'"
  shows "list_all2 (\<lambda>r r'. fix_room r = Inr r') (all_rooms bp) (all_rooms bp')"
proof -
  have "list_all2 (list_all2 (\<lambda>r r'. fix_room r = Inr r'))
      (map rooms_of_floor (floor_plans_of bp)) (map rooms_of_floor (floor_plans_of bp'))"
    using validate_floor_plans [OF assms]
    by (simp add: list_all2_map1 list_all2_map2)
       (erule list_all2_mono, rule fix_floor_plan_rooms)
  then show ?thesis
    unfolding all_rooms_def by (rule list_all2_concat)
qed

lemma mapE_total:
  "list_all (\<lambda>x. \<exists>y. f x = Inr y) xs \<Longrightarrow> \<exists>ys. mapE f xs = Inr ys"
  by (induction xs) auto

lemma calculate_room_direction_total:
  assumes "position_ok kvs"
  shows "\<exists>d. calculate_room_direction (JObj kvs) = Inr d"
proof (cases "map_of kvs ''position''")
  case None
  then show ?thesis
    using calculate_room_direction_default by blast
next
  case (Some p)
  with assms obtain pos xr yr where "p = JObj pos"
    and "num_val (case map_of pos ''x'' of None \<Rightarrow> JInt 0 | Some v \<Rightarrow> v) = Some xr"
    and "num_val (case map_of pos ''y'' of None \<Rightarrow> JInt 0 | Some v \<Rightarrow> v) = Some yr"
    by (auto simp: position_ok_def split: json.splits)
  with Some show ?thesis
    using calculate_room_direction_numeric by blast
qed

lemma get_default_room_color_total:
  assumes "type_ok kvs" and "map_of kvs' ''type'' = map_of kvs ''type''"
  shows "\<exists>c. bindE (py_get (JObj kvs') ''type'' (JStr ''general'')) get_default_room_color = Inr c"
  using assms
  by (auto simp: type_ok_def py_get_def get_default_room_color_def
      split: option.splits json.splits)

lemma fix_room_total:
  assumes "room_ok room"
  shows "\<exists>room'. fix_room room = Inr room'"
proof -
  from assms obtain kvs where room: "room = JObj kvs"
    by (auto simp: room_ok_def split: json.splits)
  define h1 where "h1 = (map_of kvs ''direction'' \<noteq> None)"
  define k1 where "k1 = (if h1 then kvs
      else AList.update ''direction'' (projr (calculate_room_direction room)) kvs)"
  define h2 where "h2 = (map_of k1 ''features'' \<noteq> None)"
  define k2 where "k2 = (if h2 then k1 else AList.update ''features'' (JArr []) k1)"
  define h3 where "h3 = (map_of k2 ''color'' \<noteq> None)"
  have c1: "py_contains ''direction'' room = Inr h1"
    by (simp add: room h1_def py_contains_def)
  have c2: "py_contains ''features'' (JObj k1) = Inr h2"
    by (simp add: h2_def py_contains_def)
  have c3: "py_contains ''color'' (JObj k2) = Inr h3"
    by (simp add: h3_def py_contains_def)
  have step1: "(if h1 then Inr room
      else bindE (calculate_room_direction room) (\<lambda>d. py_setitem room ''direction'' d))
      = Inr (JObj k1)"
  proof (cases h1)
    case False
    with assms room have "position_ok kvs"
      by (simp add: room_ok_def h1_def)
    then obtain d where "calculate_room_direction room = Inr d"
      using calculate_room_direction_total room by blast
    with False show ?thesis
      by (simp add: room k1_def py_setitem_def)
  next
    case True
    then show ?thesis
      by (simp add: room k1_def)
  qed
  have step2: "(if h2 then Inr (JObj k1) else py_setitem (JObj k1) ''features'' (JArr []))
      = Inr (JObj k2)"
    by (simp add: k2_def py_setitem_def)
  have ty: "map_of k2 ''type'' = map_of kvs ''type''"
    by (simp add: k2_def k1_def update_conv')
  have col: "map_of k2 ''color'' = map_of kvs ''color''"
    by (simp add: k2_def k1_def update_conv')
  have step3: "\<exists>r. (if h3 then Inr (JObj k2)
      else bindE (py_get (JObj k2) ''type'' (JStr ''general'')) (\<lambda>t.
           bindE (get_default_room_color t) (\<lambda>c. py_setitem (JObj k2) ''color'' c))) = Inr r"
  proof (cases h3)
    case False
    with assms room col have "type_ok kvs"
      by (simp add: room_ok_def h3_def)
    from get_default_room_color_total [OF this ty]
    obtain c where "bindE (py_get (JObj k2) ''type'' (JStr ''general'')) get_default_room_color = Inr c"
      by blast
    with False show ?thesis
      by (auto simp: py_setitem_def bindE_def split: sum.splits)
  next
    case True
    then show ?thesis
      by simp
  qed
  have "fix_room room = (if h3 then Inr (JObj k2)
      else bindE (py_get (JObj k2) ''type'' (JStr ''general'')) (\<lambda>t.
           bindE (get_default_room_color t) (\<lambda>c. py_setitem (JObj k2) ''color'' c)))"
    by (simp only: fix_room_def c1 bindE_simps step1 c2 step2 c3)
  with step3 show ?thesis
    by simp
qed

lemma fix_floor_plan_total:
  assumes "floor_plan_ok fp"
  shows "\<exists>fp'. fix_floor_plan fp = Inr fp'"
proof -
  have rooms: "\<exists>ys. mapE fix_room rs = Inr ys" if "list_all room_ok rs" for rs
    by (rule mapE_total) (use that in \<open>auto simp: list_all_iff dest: fix_room_total\<close>)
  show ?thesis
    using assms
    by (auto simp: floor_plan_ok_def fix_floor_plan_def py_get_def py_iter_def
        split: json.splits option.splits dest!: rooms)
qed

lemma validate_and_fix_blueprint_total:
  assumes "blueprint_ok bp"
  shows "\<exists>bp'. validate_and_fix_blueprint bp reqs = Inr bp'"
proof -
  have fps: "\<exists>ys. mapE fix_floor_plan xs = Inr ys" if "list_all floor_plan_ok xs" for xs
    by (rule mapE_total) (use that in \<open>auto simp: list_all_iff dest: fix_floor_plan_total\<close>)
  show ?thesis
    using assms
    by (auto simp: blueprint_ok_def validate_and_fix_blueprint_def py_get_def py_iter_def
        split: json.splits option.splits dest!: fps)
qed

text \<open>
  Claim C1, as the code has it. Normalisation returns on every blueprint of the expected
  shape. Whenever it returns, the blueprint has the same rooms in the same order, and
  each room dictionary has a direction, features and a colour: a room that lacked a
  direction has one of the nine names, a room that lacked features has the empty list, a
  room that lacked a colour has a non-empty hex string; a direction, features or colour
  the room already carried is kept as it was, and no other key changes.
\<close>

theorem validate_and_fix_blueprint_rooms:
  "(blueprint_ok bp \<longrightarrow> (\<exists>bp'. validate_and_fix_blueprint bp reqs = Inr bp')) \<and>
   (\<forall>bp'. validate_and_fix_blueprint bp reqs = Inr bp' \<longrightarrow>
      length (all_rooms bp') = length (all_rooms bp) \<and>
      (\<forall>i < length (all_rooms bp). \<forall>kvs. all_rooms bp ! i = JObj kvs \<longrightarrow>
         (\<exists>kvs'. all_rooms bp' ! i = JObj kvs' \<and> room_fixed kvs kvs')))"
proof (intro conjI allI impI)
  assume "blueprint_ok bp"
  then show "\<exists>bp'. validate_and_fix_blueprint bp reqs = Inr bp'"
    by (rule validate_and_fix_blueprint_total)
next
  fix bp' assume "validate_and_fix_blueprint bp reqs = Inr bp'"
  then show "length (all_rooms bp') = length (all_rooms bp)"
    by (simp add: list_all2_lengthD [OF validate_all_rooms])
next
  fix bp' i kvs
  assume run: "validate_and_fix_blueprint bp reqs = Inr bp'"
    and i: "i < length (all_rooms bp)" and room: "all_rooms bp ! i = JObj kvs"
  have "fix_room (all_rooms bp ! i) = Inr (all_rooms bp' ! i)"
    using validate_all_rooms [OF run] i by (rule list_all2_nthD)
  then show "\<exists>kvs'. all_rooms bp' ! i = JObj kvs' \<and> room_fixed kvs kvs'"
    using room fix_room_obj by simp
qed

theorem validate_and_fix_blueprint_rooms_witness:
  "blueprint_ok (one_floor [JObj [(''name'', JStr ''Study''), (''type'', JStr ''office''),
       (''position'', JObj [(''x'', JInt (- 8)), (''y'', JInt 8)])]])
   \<and> (\<exists>bp'. validate_and_fix_blueprint
         (one_floor [JObj [(''name'', JStr ''Study''), (''type'', JStr ''office''),
            (''position'', JObj [(''x'', JInt (- 8)), (''y'', JInt 8)])]]) None = Inr bp'
       \<and> length (all_rooms bp') = 1
       \<and> (\<exists>kvs'. all_rooms bp' ! 0 = JObj kvs'
            \<and> room_fixed [(''name'', JStr ''Study''), (''type'', JStr ''office''),
                 (''position'', JObj [(''x'', JInt (- 8)), (''y'', JInt 8)])] kvs'))"
proof -
  define room where "room = [(''name'', JStr ''Study''), (''type'', JStr ''office''),
       (''position'', JObj [(''x'', JInt (- 8)), (''y'', JInt 8)])]"
  define bp where "bp = one_floor [JObj room]"
  have ok: "blueprint_ok bp"
    by (simp add: bp_def room_def one_floor_def blueprint_ok_def floor_plan_ok_def room_ok_def
        position_ok_def type_ok_def num_val_def)
  have rooms: "all_rooms bp = [JObj room]"
    by (simp add: bp_def one_floor_def all_rooms_def floor_plans_of_def rooms_of_floor_def)
  note main = validate_and_fix_blueprint_rooms [of bp None]
  from main ok obtain bp' where run: "validate_and_fix_blueprint bp None = Inr bp'"
    by blast
  with main have len: "length (all_rooms bp') = length (all_rooms bp)"
    and each: "\<forall>i < length (all_rooms bp). \<forall>kvs. all_rooms bp ! i = JObj kvs \<longrightarrow>
         (\<exists>kvs'. all_rooms bp' ! i = JObj kvs' \<and> room_fixed kvs kvs')"
    by blast+
  from each rooms have "\<exists>kvs'. all_rooms bp' ! 0 = JObj kvs' \<and> room_fixed room kvs'"
    by simp
  with ok run len rooms show ?thesis
    unfolding bp_def room_def by auto
qed

text \<open>
  A room that arrives with a direction outside the nine names and a colour that is no hex
  string leaves normalisation with both unchanged: only the missing features are added.
\<close>

theorem validate_and_fix_blueprint_keeps_direction:
  "validate_and_fix_blueprint
     (one_floor [JObj [(''name'', JStr ''Hall''), (''direction'', JStr ''Up''),
        (''color'', JStr ''red'')]]) None
   = Inr (one_floor [JObj [(''name'', JStr ''Hall''), (''direction'', JStr ''Up''),
        (''color'', JStr ''red''), (''features'', JArr [])]])
   \<and> all_rooms (one_floor [JObj [(''name'', JStr ''Hall''), (''direction'', JStr ''Up''),
        (''color'', JStr ''red''), (''features'', JArr [])]])
     = [JObj [(''name'', JStr ''Hall''), (''direction'', JStr ''Up''),
        (''color'', JStr ''red''), (''features'', JArr [])]]
   \<and> ''Up'' \<notin> set ROOM_DIRECTIONS
   \<and> \<not> is_hex_color ''red''"
  by (simp add: validate_and_fix_blueprint_def fix_floor_plan_def fix_room_def one_floor_def
      py_get_def py_iter_def py_contains_def py_setitem_def put_back_def with_items_def
      all_rooms_def floor_plans_of_def rooms_of_floor_def ROOM_DIRECTIONS_def is_hex_color_def)

section \<open>The fallback text and its document\<close>

lemma fold_lines:
  "foldl f st (concat (map (\<lambda>l. l @ [c]) ls)) = foldl (\<lambda>st l. f (foldl f st l) c) st ls"
  by (induction ls arbitrary: st) simp_all

text \<open>The decoder, run line by line over the fallback text, ends with the fallback
  document.\<close>

lemma decode_fallback_lines:
  "foldl (\<lambda>st l. step (foldl step st l) (CHR 0x0A)) (Val, [], None) fallback_lines
     = (Next, [], Some fallback_blueprint)"
  by code_simp

lemma decode_fallback_text:
  "foldl step (Val, [], None) get_fallback_response = (Next, [], Some fallback_blueprint)"
  by (simp only: get_fallback_response_def fold_lines decode_fallback_lines)

lemma json_loads_fallback: "json_loads get_fallback_response = Inr fallback_blueprint"
  by (simp add: json_loads_def decode_fallback_text finish_def)

text \<open>The text between the first and the last newline of the fallback text.\<close>

lemma fallback_text_body:
  "get_fallback_response = CHR 0x0A # fallback_body @ [CHR 0x0A]"
  by (simp add: get_fallback_response_def fallback_lines_def fallback_body_def)

lemma is_space_newline: "is_space (CHR 0x0A)"
  by (simp add: is_space_def)

lemma py_strip_between:
  assumes "b \<noteq> []" and "\<not> is_space (hd b)" and "\<not> is_space (last b)"
    and "\<forall>c \<in> set w1. is_space c" and "\<forall>c \<in> set w2. is_space c"
  shows "py_strip (w1 @ b @ w2) = b"
proof -
  have front: "dropWhile is_space (w1 @ b @ w2) = b @ w2"
    using assms(1,2,4) by (cases b) (simp_all add: dropWhile_append2)
  have "dropWhile is_space (rev w2 @ rev b) = dropWhile is_space (rev b)"
    by (rule dropWhile_append2) (use assms(5) in auto)
  then have "dropWhile is_space (rev (b @ w2)) = dropWhile is_space (rev b)"
    by simp
  also have "\<dots> = rev b"
    using assms(1,3) by (cases b rule: rev_cases) simp_all
  finally show ?thesis
    by (simp add: py_strip_def front)
qed

lemma py_strip_fallback: "py_strip get_fallback_response = fallback_body"
proof -
  have "py_strip ([CHR 0x0A] @ fallback_body @ [CHR 0x0A]) = fallback_body"
    by (rule py_strip_between) (simp_all add: fallback_body_def is_space_def)
  then show ?thesis
    by (simp add: fallback_text_body)
qed

text \<open>After a complete value, white space changes nothing: a state that white space
  takes to the finished state was finished already.\<close>

lemma ws_cases:
  "is_json_ws c \<Longrightarrow> c = CHR 0x20 \<or> c = CHR 0x09 \<or> c = CHR 0x0A \<or> c = CHR 0x0D"
  by (simp add: is_json_ws_def)

lemma ws_not_word: "is_json_ws c \<Longrightarrow> \<not> is_word_char c"
  by (drule ws_cases) (elim disjE; simp add: is_word_char_def)

lemma ws_not_special:
  "is_json_ws c \<Longrightarrow> c \<noteq> CHR 0x22 \<and> c \<noteq> CHR 0x5C \<and> c \<noteq> CHR '','' \<and> c \<noteq> CHR '']''
     \<and> c \<noteq> CHR ''}'' \<and> c \<noteq> CHR ''{'' \<and> c \<noteq> CHR ''['' \<and> c \<noteq> CHR '':'' \<and> unescape c = None"
  by (drule ws_cases) (elim disjE; simp add: unescape_def)

lemma emit_empty_stack:
  "emit x fs = (m, [], Some v) \<Longrightarrow> fs = [] \<and> x = v"
  by (auto simp: emit_def failed_def split: list.splits frame.splits option.splits)

lemma finish_before_ws:
  assumes "is_json_ws c" and "step st c = (Next, [], Some v)"
  shows "finish st = Inr v"
proof -
  obtain m fs res where st: "st = (m, fs, res)"
    by (cases st)
  note ws = ws_not_word [OF assms(1)] ws_not_special [OF assms(1)]
  show ?thesis
  proof (cases m)
    case Next
    with assms st show ?thesis
      by (simp add: step_def step_next_def finish_def)
  next
    case (Word w)
    with assms st ws obtain x m' fs' res' where x: "word_value w = Some x"
      and e: "emit x fs = (m', fs', res')" and n: "step_next fs' res' c = (Next, [], Some v)"
      by (auto simp: step_def failed_def split: option.splits prod.splits)
    from n assms(1) have "fs' = []" and "res' = Some v"
      by (simp_all add: step_next_def)
    with e have "fs = []" and "x = v"
      using emit_empty_stack [of x fs m' v] by simp_all
    with st Word x show ?thesis
      by (simp add: finish_def)
  next
    case (Str acc esc)
    with assms st ws show ?thesis
      by (auto simp: step_def step_string_def failed_def split: if_splits)
  next
    case (KeyStr acc esc)
    with assms st ws show ?thesis
      by (auto simp: step_def step_string_def failed_def split: if_splits)
  qed (use assms st ws in \<open>auto simp: step_def step_value_def step_key_def failed_def
        split: if_splits\<close>)
qed

lemma json_loads_fallback_body: "json_loads fallback_body = Inr fallback_blueprint"
proof -
  have nl: "is_json_ws (CHR 0x0A)"
    by (simp add: is_json_ws_def)
  then have start: "step (Val, [], None) (CHR 0x0A) = (Val, [], None)"
    by (simp add: step_def step_value_def)
  have "step (foldl step (Val, [], None) fallback_body) (CHR 0x0A)
      = (Next, [], Some fallback_blueprint)"
    using decode_fallback_text by (simp add: fallback_text_body start)
  from finish_before_ws [OF nl this] show ?thesis
    by (simp add: json_loads_def)
qed

section \<open>The gateway never fails\<close>

lemma candidates_path:
  "bindE (py_and (py_contains ''candidates'' d)
            (bindE (py_getitem d ''candidates'') (\<lambda>c. bindE (py_len c) (\<lambda>n. Inr (n > 0)))))
     (\<lambda>some. if some then
        bindE (py_getitem d ''candidates'') (\<lambda>c.
        bindE (py_getitem0 c) (\<lambda>c0.
        bindE (py_getitem c0 ''content'') (\<lambda>content.
        bindE (py_getitem content ''parts'') (\<lambda>parts.
        bindE (py_getitem0 parts) (\<lambda>p0.
          py_getitem p0 ''text'')))))
      else Inl (PyException ''No response generated by Gemini'')) = Inr v
   \<longleftrightarrow> envelope_text d = Some v"
  by (auto simp: envelope_text_def py_contains_def py_getitem_def py_getitem0_def py_len_def
      py_and_def bindE_def
      split: json.splits option.splits list.splits sum.splits if_splits)

text \<open>The request succeeds exactly on status 200 with a decodable body that has the text
  in its place.\<close>

lemma gemini_request_Inr_iff:
  "gemini_request e prompt = Inr v \<longleftrightarrow>
     (\<exists>content d. post e prompt = Response 200 content (Inr d) \<and> envelope_text d = Some v)"
proof (cases "post e prompt")
  case (RequestFailed err)
  then show ?thesis
    by (simp add: gemini_request_def)
next
  case (Response status content body)
  show ?thesis
  proof (cases body)
    case (Inl err)
    with Response show ?thesis
      by (simp add: gemini_request_def)
  next
    case (Inr d)
    with Response show ?thesis
      using candidates_path [of d v] by (simp add: gemini_request_def)
  qed
qed

lemma call_gemini_api_cases:
  "call_gemini_api e prompt =
     (case gemini_request e prompt of
        Inl err \<Rightarrow> Inr (JStr get_fallback_response) | Inr v \<Rightarrow> Inr v)"
  by (simp add: call_gemini_api_def)


lemma call_gemini_api_answer:
  assumes "post e prompt = Response 200 content (Inr d)" and "envelope_text d = Some v"
  shows "call_gemini_api e prompt = Inr v"
proof -
  have "gemini_request e prompt = Inr v"
    using assms gemini_request_Inr_iff by blast
  then show ?thesis
    by (simp add: call_gemini_api_def)
qed



section \<open>The payload the extractor selects\<close>

lemma starts_with_length: "starts_with sub s \<Longrightarrow> length sub \<le> length s"
  by (induction sub s rule: starts_with.induct) auto

lemma find_str_bound: "find_str sub s = Some i \<Longrightarrow> i + length sub \<le> length s"
proof (induction s arbitrary: i)
  case Nil
  then show ?case by (auto split: if_splits)
next
  case (Cons c cs)
  then show ?case
    using starts_with_length [of sub "c # cs"] by (auto split: if_splits)
qed

lemma py_find_from:
  assumes "k \<le> length r"
  shows "py_find r sub (int k)
    = (case find_str sub (drop k r) of None \<Rightarrow> - 1 | Some j \<Rightarrow> int (k + j))"
  using assms by (simp add: py_find_def Let_def split: option.splits)

lemma py_slice_between:
  assumes "a \<le> b" and "b \<le> length r"
  shows "py_slice r (int a) (int b) = take (b - a) (drop a r)"
  using assms by (simp add: py_slice_def slice_index_def Let_def)

lemma py_slice_to_minus_one:
  assumes "a \<le> length r"
  shows "py_slice r (int a) (- 1) = butlast (drop a r)"
proof -
  have "slice_index (length r) (- 1) = length r - 1"
    by (simp add: slice_index_def)
  then show ?thesis
    using assms by (simp add: py_slice_def slice_index_def Let_def butlast_conv_take)
qed

lemma fenced_payload:
  assumes "find_str fence r = Some i" and "k = i + length fence"
  shows "py_slice r (int k) (py_find r ''```'' (int k))
    = (let rest = drop k r
       in case find_str ''```'' rest of Some j \<Rightarrow> take j rest | None \<Rightarrow> butlast rest)"
proof -
  have k: "k \<le> length r"
    using find_str_bound [OF assms(1)] assms(2) by simp
  show ?thesis
  proof (cases "find_str ''```'' (drop k r)")
    case None
    then show ?thesis
      using k by (simp add: py_find_from py_slice_to_minus_one)
  next
    case (Some j)
    from find_str_bound [OF this] have "k + j \<le> length r"
      using k by simp
    with Some show ?thesis
      using k py_slice_between [of k "k + j" r] by (simp add: py_find_from)
  qed
qed

lemma extract_json_str_payload: "extract_json_str r = py_strip (payload_code r)"
proof (cases "find_str ''```json'' r")
  case None
  show ?thesis
  proof (cases "find_str ''```'' r")
    case None
    with \<open>find_str ''```json'' r = None\<close> show ?thesis
      by (simp add: extract_json_str_def payload_code_def str_contains_def)
  next
    case (Some i)
    have start: "py_find r ''```'' 0 = int i"
      using py_find_from [of 0 r "''```''"] Some by simp
    have "py_slice r (int i + 3) (py_find r ''```'' (int i + 3))
      = (let rest = drop (i + 3) r
         in case find_str ''```'' rest of Some j \<Rightarrow> take j rest | None \<Rightarrow> butlast rest)"
      using fenced_payload [OF Some, of "i + 3"] by simp
    with None Some start show ?thesis
      by (simp add: extract_json_str_def payload_code_def str_contains_def Let_def)
  qed
next
  case (Some i)
  have start: "py_find r ''```json'' 0 = int i"
    using py_find_from [of 0 r "''```json''"] Some by simp
  have "py_slice r (int i + 7) (py_find r ''```'' (int i + 7))
    = (let rest = drop (i + 7) r
       in case find_str ''```'' rest of Some j \<Rightarrow> take j rest | None \<Rightarrow> butlast rest)"
    using fenced_payload [OF Some, of "i + 7"] by simp
  with Some start show ?thesis
    by (simp add: extract_json_str_def payload_code_def str_contains_def Let_def)
qed

text \<open>
  The code and the specification select the same payload, except when a fence is opened
  and never closed: there the code loses the last character of the text.
\<close>

lemma payload_code_spec:
  "payload_code r = (if unclosed_fence r then butlast (payload_spec r) else payload_spec r)"
  by (simp add: payload_code_def payload_spec_def unclosed_fence_def Let_def
      split: option.splits)

lemma starts_with_append: "starts_with (p @ q) s \<Longrightarrow> starts_with p s"
  by (induction p s rule: starts_with.induct) auto

lemma find_str_append: "find_str (p @ q) s \<noteq> None \<Longrightarrow> find_str p s \<noteq> None"
proof (induction s)
  case Nil
  then show ?case by (simp split: if_splits)
next
  case (Cons c cs)
  then show ?case
    using starts_with_append [of p q "c # cs"] by (auto split: if_splits)
qed

lemma extract_json_str_no_fence:
  assumes "\<not> str_contains ''```'' r"
  shows "extract_json_str r = py_strip r"
proof -
  have plain: "find_str ''```'' r = None"
    using assms by (simp add: str_contains_def)
  have "find_str (''```'' @ ''json'') r = None"
    using find_str_append [of "''```''" "''json''" r] plain by blast
  with plain show ?thesis
    by (simp add: extract_json_str_def str_contains_def)
qed

section \<open>Decoding failures become the fallback document\<close>

lemma parse_blueprint_response_text:
  "parse_blueprint_response e (JStr response) =
     (case loads e (extract_json_str response) of
        Inl JSONDecodeError \<Rightarrow> loads e get_fallback_response
      | r \<Rightarrow> r)"
  by (simp add: parse_blueprint_response_def)


lemma loads_sample_env: "loads (sample_env outcome) = json_loads"
  by (simp add: sample_env_def)

lemma loads_env_down: "loads env_down = json_loads"
  by (simp add: env_down_def loads_sample_env)


text \<open>
  Without any fence the payload is the trimmed text, so a decoder that ignores the
  white space around a text returns, through the extractor, exactly what it makes of the
  text.
\<close>

lemma parse_blueprint_response_plain:
  assumes "\<not> str_contains ''```'' response"
    and "loads e response = Inr d"
    and "loads e (py_strip response) = loads e response"
  shows "parse_blueprint_response e (JStr response) = Inr d"
  using assms by (simp add: parse_blueprint_response_text extract_json_str_no_fence)

text \<open>
  Claim C6 at a text whose fence is never closed. The specification takes the payload up
  to the end of the text, which here is a JSON object; the code ends the payload one
  character early, the decoder rejects what is left, and the extractor returns the
  fallback document.
\<close>

theorem extract_json_str_unclosed_fence:
  \<open>extract_json_str ''```json {"a": 1}'' = ''{"a": 1''
   \<and> py_strip (payload_spec ''```json {"a": 1}'') = ''{"a": 1}''
   \<and> json_loads ''{"a": 1}'' = Inr (JObj [(''a'', JInt 1)])
   \<and> parse_blueprint_response env_down (JStr ''```json {"a": 1}'') = Inr fallback_blueprint\<close>
proof -
  have code: \<open>extract_json_str ''```json {"a": 1}'' = ''{"a": 1''\<close>
    by code_simp
  have spec: \<open>py_strip (payload_spec ''```json {"a": 1}'') = ''{"a": 1}''\<close>
    by code_simp
  have whole: \<open>json_loads ''{"a": 1}'' = Inr (JObj [(''a'', JInt 1)])\<close>
    by code_simp
  have cut: \<open>json_loads ''{"a": 1'' = Inl JSONDecodeError\<close>
    by code_simp
  have \<open>parse_blueprint_response env_down (JStr ''```json {"a": 1}'') = Inr fallback_blueprint\<close>
    by (simp add: parse_blueprint_response_text code loads_env_down cut json_loads_fallback)
  with code spec whole show ?thesis
    by simp
qed

section \<open>The payload of the fallback text\<close>

text \<open>No line of the fallback text has a backquote, so the text has no fence.\<close>

lemma find_str_first_char:
  "find_str sub s = Some i \<Longrightarrow> sub \<noteq> [] \<Longrightarrow> hd sub \<in> set s"
proof (induction s arbitrary: i)
  case Nil
  then show ?case by (simp split: if_splits)
next
  case (Cons c cs)
  then show ?case
    by (cases sub) (auto split: if_splits)
qed

lemma fallback_lines_no_backquote: "\<forall>l \<in> set fallback_lines. CHR 0x60 \<notin> set l"
  by code_simp

lemma fallback_no_fence: "\<not> str_contains ''```'' get_fallback_response"
proof
  assume "str_contains ''```'' get_fallback_response"
  then obtain i where "find_str ''```'' get_fallback_response = Some i"
    by (auto simp: str_contains_def)
  from find_str_first_char [OF this] have "CHR 0x60 \<in> set get_fallback_response"
    by simp
  with fallback_lines_no_backquote show False
    by (auto simp: get_fallback_response_def split: if_splits)
qed

lemma extract_fallback: "extract_json_str get_fallback_response = fallback_body"
  by (simp add: extract_json_str_no_fence [OF fallback_no_fence] py_strip_fallback)

section \<open>Selecting a floor\<close>

lemma list_update_last:
  "xs \<noteq> [] \<Longrightarrow> xs[length xs - 1 := x] = butlast xs @ [x]"
  by (cases xs rule: rev_cases) simp_all

lemma update_floor_view_result:
  assumes "design_history g \<noteq> []"
  shows "update_floor_view n g =
     Inr (blueprint (last (design_history g)),
          g\<lparr>self_current_floor := n,
            design_history := butlast (design_history g)
              @ [(last (design_history g))\<lparr>current_floor := n\<rparr>]\<rparr>)"
  using assms list_update_last [of "design_history g"]
  by (simp add: update_floor_view_def Let_def)

text \<open>
  Claim C7. On a non-empty history \<^verbatim>\<open>update_floor_view n\<close> returns the blueprint of the
  latest entry. The history keeps its length, all entries before the last are the same,
  and the last entry differs from the old one in its current floor only; the generator
  remembers \<open>n\<close> and the history reports \<open>n\<close> as its current floor. A second call with the
  same \<open>n\<close> returns the same blueprint and changes nothing.
\<close>

theorem update_floor_view_frame:
  assumes "design_history g \<noteq> []"
  shows "\<exists>g'. update_floor_view n g = Inr (blueprint (last (design_history g)), g')
    \<and> length (design_history g') = length (design_history g)
    \<and> butlast (design_history g') = butlast (design_history g)
    \<and> last (design_history g') = (last (design_history g))\<lparr>current_floor := n\<rparr>
    \<and> map version (design_history g') = map version (design_history g)
    \<and> map blueprint (design_history g') = map blueprint (design_history g)
    \<and> self_current_floor g' = n
    \<and> get_current_floor (design_history g') = n
    \<and> update_floor_view n g' = Inr (blueprint (last (design_history g)), g')"
proof -
  define h where "h = design_history g"
  define g' where "g' = g\<lparr>self_current_floor := n,
      design_history := butlast h @ [(last h)\<lparr>current_floor := n\<rparr>]\<rparr>"
  have h: "h \<noteq> []"
    using assms by (simp add: h_def)
  have first: "update_floor_view n g = Inr (blueprint (last h), g')"
    using update_floor_view_result [OF assms] by (simp add: h_def g'_def)
  have hist: "design_history g' = butlast h @ [(last h)\<lparr>current_floor := n\<rparr>]"
    by (simp add: g'_def)
  have len: "length (design_history g') = length h"
    using h by (simp add: hist)
  have "map version (butlast h @ [last h]) = map version h"
    using h by simp
  then have versions: "map version (design_history g') = map version h"
    by (simp add: hist)
  have "map blueprint (butlast h @ [last h]) = map blueprint h"
    using h by simp
  then have blueprints: "map blueprint (design_history g') = map blueprint h"
    by (simp add: hist)
  have again: "update_floor_view n g' = Inr (blueprint (last h), g')"
  proof -
    have "design_history g' \<noteq> []"
      by (simp add: hist)
    from update_floor_view_result [OF this, of n] show ?thesis
      by (simp add: hist) (simp add: g'_def)
  qed
  show ?thesis
    unfolding h_def [symmetric]
    using first len versions blueprints again
    by (intro exI [of _ g']) (simp add: hist get_current_floor_def g'_def)
qed

lemma gen1_history: "design_history gen1 \<noteq> []"
  by (simp add: gen1_def)

theorem update_floor_view_frame_witness:
  "design_history gen1 \<noteq> []
   \<and> (\<exists>g'. update_floor_view 2 gen1 = Inr (fallback_blueprint, g')
        \<and> length (design_history g') = 1
        \<and> map version (design_history g') = [1]
        \<and> get_current_floor (design_history g') = 2
        \<and> update_floor_view 2 g' = Inr (fallback_blueprint, g'))"
  using update_floor_view_frame [OF gen1_history, of 2]
  by (auto simp: gen1_def first_entry_def)

text \<open>
  Claim C10. The floor number is not checked against anything: on a non-empty history
  every integer, also zero, a negative one and one beyond the floor plans of the latest
  blueprint, is accepted, becomes the reported current floor, and the latest blueprint is
  returned.
\<close>

theorem update_floor_view_any_floor:
  assumes "design_history g \<noteq> []"
  shows "(\<forall>n. \<exists>g'. update_floor_view n g = Inr (blueprint (last (design_history g)), g')
          \<and> self_current_floor g' = n
          \<and> current_floor (last (design_history g')) = n
          \<and> get_current_floor (design_history g') = n)
    \<and> (\<forall>n err. update_floor_view n g \<noteq> Inl err)
    \<and> (\<exists>g'. update_floor_view 0 g = Inr (blueprint (last (design_history g)), g')
          \<and> get_current_floor (design_history g') = 0)
    \<and> (\<exists>g'. update_floor_view (- 1) g = Inr (blueprint (last (design_history g)), g')
          \<and> get_current_floor (design_history g') = - 1)
    \<and> (\<exists>g'. update_floor_view
            (int (length (floor_plans_of (blueprint (last (design_history g))))) + 1) g
            = Inr (blueprint (last (design_history g)), g')
          \<and> get_current_floor (design_history g')
            = int (length (floor_plans_of (blueprint (last (design_history g))))) + 1)"
proof -
  have any: "\<exists>g'. update_floor_view n g = Inr (blueprint (last (design_history g)), g')
      \<and> self_current_floor g' = n
      \<and> current_floor (last (design_history g')) = n
      \<and> get_current_floor (design_history g') = n" for n
    by (simp add: update_floor_view_result [OF assms] get_current_floor_def)
  have never: "update_floor_view n g \<noteq> Inl err" for n err
    by (simp add: update_floor_view_result [OF assms])
  show ?thesis
    using any never by blast
qed

theorem update_floor_view_any_floor_witness:
  "design_history gen1 \<noteq> []
   \<and> length (floor_plans_of (blueprint (last (design_history gen1)))) = 2
   \<and> (\<exists>g'. update_floor_view 99 gen1 = Inr (fallback_blueprint, g')
         \<and> get_current_floor (design_history g') = 99)
   \<and> (\<exists>g'. update_floor_view (- 7) gen1 = Inr (fallback_blueprint, g')
         \<and> get_current_floor (design_history g') = - 7)"
proof -
  have floors: "length (floor_plans_of (blueprint (last (design_history gen1)))) = 2"
    by (simp add: gen1_def first_entry_def fallback_blueprint_def floor_plans_of_def)
  have last: "blueprint (last (design_history gen1)) = fallback_blueprint"
    by (simp add: gen1_def first_entry_def)
  from update_floor_view_any_floor [OF gen1_history]
  have "\<forall>n. \<exists>g'. update_floor_view n gen1 = Inr (fallback_blueprint, g')
          \<and> get_current_floor (design_history g') = n"
    unfolding last by blast
  then have "\<exists>g'. update_floor_view 99 gen1 = Inr (fallback_blueprint, g')
         \<and> get_current_floor (design_history g') = 99"
    and "\<exists>g'. update_floor_view (- 7) gen1 = Inr (fallback_blueprint, g')
         \<and> get_current_floor (design_history g') = - 7"
    by blast+
  with gen1_history floors show ?thesis
    by blast
qed

section \<open>Which exceptions the operations can raise\<close>


lemma bindE_Inr:
  "bindE m f = Inr y \<Longrightarrow> \<exists>x. m = Inr x \<and> f x = Inr y"
  by (cases m) simp_all














section \<open>The fallback document passes through\<close>

lemma fallback_normalized:
  "validate_and_fix_blueprint fallback_blueprint reqs = Inr fallback_blueprint"
  by (simp add: validate_and_fix_blueprint_def fix_floor_plan_def fix_room_def
      fallback_blueprint_def py_get_def py_iter_def py_contains_def put_back_def with_items_def)

lemma resolve_generation_failure:
  assumes "gemini_request e prompt = Inl err"
    and "loads e (extract_json_str get_fallback_response) = Inr fallback_blueprint"
  shows "bindE (call_gemini_api e prompt) (\<lambda>response.
         bindE (parse_blueprint_response e response) (\<lambda>parsed.
         bindE (validate_and_fix_blueprint parsed reqs) k)) = k fallback_blueprint"
  using assms by (simp add: call_gemini_api_def parse_blueprint_response_def fallback_normalized)


section \<open>Rejection without a design, fallback with one\<close>














lemma env_down_request: "\<exists>err. gemini_request env_down prompt = Inl err"
  by (simp add: gemini_request_def env_down_def sample_env_def)

lemma env_down_payload:
  "loads env_down (extract_json_str get_fallback_response) = Inr fallback_blueprint"
  by (simp add: loads_env_down extract_fallback json_loads_fallback_body)

lemma env_answer_text: "call_gemini_api (env_answer generated) prompt = Inr (JStr generated)"
  by (rule call_gemini_api_answer [where d = "envelope generated" and content = "''''"])
    (simp_all add: env_answer_def sample_env_def envelope_def envelope_text_def)


section \<open>Version numbers\<close>

lemma versions_ok_snoc:
  assumes "versions_ok h" and "version x = int (length h) + 1"
  shows "versions_ok (h @ [x])"
  using assms by (simp add: versions_ok_def)

lemma generate_initial_blueprint_appends:
  assumes "generate_initial_blueprint e reqs g = Inr (bp, g')"
  shows "\<exists>x. design_history g' = design_history g @ [x] \<and> version x = 1 \<and> blueprint x = bp
    \<and> self_current_floor g' = self_current_floor g"
  using assms unfolding generate_initial_blueprint_def
  by (auto dest!: bindE_Inr)

lemma iterate_design_appends:
  assumes "iterate_design e user_feedback g = Inr (bp, g')"
  shows "\<exists>x. design_history g' = design_history g @ [x]
    \<and> version x = int (length (design_history g')) \<and> blueprint x = bp
    \<and> self_current_floor g' = self_current_floor g"
  using assms unfolding iterate_design_def Let_def
  by (auto dest!: bindE_Inr split: if_splits)

lemma optimize_design_appends:
  assumes "optimize_design e goals g = Inr (bp, g')"
  shows "\<exists>x. design_history g' = design_history g @ [x]
    \<and> version x = int (length (design_history g')) \<and> blueprint x = bp
    \<and> self_current_floor g' = self_current_floor g"
  using assms unfolding optimize_design_def Let_def
  by (auto dest!: bindE_Inr split: if_splits)

lemma update_floor_view_versions:
  assumes "update_floor_view n g = Inr (bp, g')"
  shows "map version (design_history g') = map version (design_history g)"
proof -
  from assms have h: "design_history g \<noteq> []"
    by (auto simp: update_floor_view_def split: if_splits)
  have "map version (butlast (design_history g) @ [last (design_history g)])
      = map version (design_history g)"
    using h by simp
  with assms show ?thesis
    by (auto simp: update_floor_view_result [OF h])
qed

text \<open>
  What the history does keep: feedback and optimisation append an entry whose version is
  the new length, floor selection changes no version, and a history that starts with one
  generation on an empty history has the versions 1, 2, 3, ... ever after, as long as no
  second generation runs on it.
\<close>

lemma later_versions:
  assumes "later g0 g" and "versions_ok (design_history g0)"
  shows "versions_ok (design_history g)"
  using assms
proof (induction rule: later.induct)
  case (same g)
  then show ?case by simp
next
  case (iterated g g1 e user_feedback bp g2)
  then show ?case
    using iterate_design_appends [of e user_feedback g1 bp g2]
    by (auto simp: versions_ok_def)
next
  case (optimized g g1 e goals bp g2)
  then show ?case
    using optimize_design_appends [of e goals g1 bp g2]
    by (auto simp: versions_ok_def)
next
  case (viewed g g1 n bp g2)
  then show ?case
    using update_floor_view_versions [of n g1 bp g2]
    by (simp add: versions_ok_def) (metis length_map)
qed

lemma session_versions:
  assumes "design_history g0 = []"
    and "generate_initial_blueprint e reqs g0 = Inr (bp, g1)"
    and "later g1 g"
  shows "versions_ok (design_history g)"
proof -
  from generate_initial_blueprint_appends [OF assms(2)] assms(1)
  have "versions_ok (design_history g1)"
    by (auto simp: versions_ok_def)
  with assms(3) show ?thesis
    by (rule later_versions)
qed

section \<open>Generation with the service down\<close>

lemma generate_initial_blueprint_forced:
  assumes "generate_initial_prompt e reqs = Inr prompt"
    and "gemini_request e prompt = Inl err"
    and "loads e (extract_json_str get_fallback_response) = Inr fallback_blueprint"
  shows "generate_initial_blueprint e reqs g =
     Inr (fallback_blueprint,
          g\<lparr>design_history := design_history g @
             [\<lparr>version = 1,
               blueprint = fallback_blueprint,
               feedback = ''Initial generation'',
               timestamp = clock e 1,
               changes_made = [''Initial creation''],
               current_floor = 1\<rparr>]\<rparr>)"
  by (simp add: generate_initial_blueprint_def assms(1)
      resolve_generation_failure [OF assms(2,3)])

lemma env_down_prompt: "\<exists>prompt. generate_initial_prompt env_down scenario_requirements = Inr prompt"
  by (simp add: generate_initial_prompt_def py_truediv_def scenario_requirements_def
      env_down_def sample_env_def)

lemma env_down_clock: "clock env_down k = ''2026-01-15T09:30:00''"
  by (simp add: env_down_def sample_env_def)

lemma env_down_generate:
  "generate_initial_blueprint env_down scenario_requirements g =
     Inr (fallback_blueprint, g\<lparr>design_history := design_history g @ [first_entry]\<rparr>)"
proof -
  obtain prompt err where "generate_initial_prompt env_down scenario_requirements = Inr prompt"
    and "gemini_request env_down prompt = Inl err"
    using env_down_prompt env_down_request by blast
  from generate_initial_blueprint_forced [OF this env_down_payload] show ?thesis
    by (simp add: env_down_clock first_entry_def)
qed

text \<open>
  Claim C3 at two generations in a row. \<^verbatim>\<open>generate_initial_blueprint\<close> appends an entry of
  version 1 to whatever history the generator holds. The service has one generator for
  all sessions and never empties its history, so the second \<^verbatim>\<open>POST /api/generate\<close>
  stores, for the new session, a history of two entries that both carry version 1.
\<close>

theorem generate_twice_versions:
  "generate_initial_blueprint env_down scenario_requirements init_generator
     = Inr (fallback_blueprint, gen1)
   \<and> generate_initial_blueprint env_down scenario_requirements gen1
     = Inr (fallback_blueprint, gen2)
   \<and> map version (design_history gen2) = [1, 1]
   \<and> \<not> versions_ok (design_history gen2)
   \<and> generate_blueprint env_down ''session-b'' scenario_requirements server1
     = Inr (second_response, server2)
   \<and> map_option (map version) (map_of (design_storage server2) ''session-b'') = Some [1, 1]"
proof -
  have one: "generate_initial_blueprint env_down scenario_requirements init_generator
      = Inr (fallback_blueprint, gen1)"
    by (simp add: env_down_generate init_generator_def gen1_def)
  have two: "generate_initial_blueprint env_down scenario_requirements gen1
      = Inr (fallback_blueprint, gen2)"
    by (simp add: env_down_generate gen1_def gen2_def)
  have versions: "map version (design_history gen2) = [1, 1]"
    by (simp add: gen2_def first_entry_def)
  then have bad: "\<not> versions_ok (design_history gen2)"
    by (simp add: versions_ok_def gen2_def upt_rec)
  have known: "building_type scenario_requirements \<in> set BUILDING_TYPES"
    by (simp add: scenario_requirements_def BUILDING_TYPES_def)
  have service: "generate_blueprint env_down ''session-b'' scenario_requirements server1
      = Inr (second_response, server2)"
    using known two
    by (simp add: generate_blueprint_def server1_def server2_def second_response_def
        env_down_clock gen2_def)
  have stored: "map_option (map version) (map_of (design_storage server2) ''session-b'')
      = Some [1, 1]"
    by (simp add: server2_def first_entry_def)
  from one two versions bad service stored show ?thesis
    by simp
qed

lemma fallback_blueprint_floors:
  "length (floor_plans_of fallback_blueprint) = 2"
  "floor_numbers fallback_blueprint = [Some (JInt 1), Some (JInt 2)]"
  "room_directions fallback_blueprint =
     [[(Some (JStr ''Living Room''), Some (JStr ''Center'')),
       (Some (JStr ''Kitchen''), Some (JStr ''East''))],
      [(Some (JStr ''Master Bedroom''), Some (JStr ''North''))]]"
  by (simp_all add: fallback_blueprint_def floor_plans_of_def floor_numbers_def
      room_directions_def rooms_of_floor_def field_def)

text \<open>
  Claim C8. Let the prompt be built, the request to the model fail, and the decoder read
  the fallback text as the fallback document. Then initial generation returns the
  fallback document, whatever the requirements ask for, and appends an entry of version
  1 that holds it; the service answers with version 1. The fallback document has two
  floor plans, numbered 1 and 2, with a Living Room (Center) and a Kitchen (East) on the
  first and a Master Bedroom (North) on the second.
\<close>

theorem generate_initial_blueprint_fallback:
  assumes "generate_initial_prompt e reqs = Inr prompt"
    and "gemini_request e prompt = Inl err"
    and "loads e (extract_json_str get_fallback_response) = Inr fallback_blueprint"
  shows "(\<exists>g'. generate_initial_blueprint e reqs g = Inr (fallback_blueprint, g')
            \<and> length (design_history g') = Suc (length (design_history g))
            \<and> butlast (design_history g') = design_history g
            \<and> version (last (design_history g')) = 1
            \<and> blueprint (last (design_history g')) = fallback_blueprint
            \<and> changes_made (last (design_history g')) = [''Initial creation'']
            \<and> current_floor (last (design_history g')) = 1)
    \<and> (\<forall>uuid srv. the_generator srv = g \<and> building_type reqs \<in> set BUILDING_TYPES \<longrightarrow>
          (\<exists>resp srv'. generate_blueprint e uuid reqs srv = Inr (resp, srv')
             \<and> response_blueprint resp = Some fallback_blueprint
             \<and> response_version resp = 1))
    \<and> length (floor_plans_of fallback_blueprint) = 2
    \<and> floor_numbers fallback_blueprint = [Some (JInt 1), Some (JInt 2)]
    \<and> room_directions fallback_blueprint =
         [[(Some (JStr ''Living Room''), Some (JStr ''Center'')),
           (Some (JStr ''Kitchen''), Some (JStr ''East''))],
          [(Some (JStr ''Master Bedroom''), Some (JStr ''North''))]]"
proof -
  note run = generate_initial_blueprint_forced [OF assms, of g]
  have first: "\<exists>g'. generate_initial_blueprint e reqs g = Inr (fallback_blueprint, g')
            \<and> length (design_history g') = Suc (length (design_history g))
            \<and> butlast (design_history g') = design_history g
            \<and> version (last (design_history g')) = 1
            \<and> blueprint (last (design_history g')) = fallback_blueprint
            \<and> changes_made (last (design_history g')) = [''Initial creation'']
            \<and> current_floor (last (design_history g')) = 1"
    by (simp add: run)
  have service: "\<exists>resp srv'. generate_blueprint e uuid reqs srv = Inr (resp, srv')
             \<and> response_blueprint resp = Some fallback_blueprint
             \<and> response_version resp = 1"
    if "the_generator srv = g" and "building_type reqs \<in> set BUILDING_TYPES" for uuid srv
    using that by (simp add: generate_blueprint_def run)
  from first service fallback_blueprint_floors show ?thesis
    by blast
qed

lemma scenario_prompt:
  "generate_initial_prompt env_down scenario_requirements
     = Inr ''residential_house living_room, kitchen, bedrooms, bathrooms, dining_room''"
  by (simp add: generate_initial_prompt_def py_truediv_def scenario_requirements_def
      env_down_def sample_env_def get_room_suggestions_def)

theorem generate_initial_blueprint_fallback_witness:
  "floors scenario_requirements = 2
   \<and> (\<exists>prompt err. generate_initial_prompt env_down scenario_requirements = Inr prompt
         \<and> gemini_request env_down prompt = Inl err)
   \<and> loads env_down (extract_json_str get_fallback_response) = Inr fallback_blueprint
   \<and> (\<exists>g'. generate_initial_blueprint env_down scenario_requirements init_generator
           = Inr (fallback_blueprint, g')
         \<and> length (design_history g') = 1
         \<and> version (last (design_history g')) = 1)
   \<and> floor_numbers fallback_blueprint = [Some (JInt 1), Some (JInt 2)]"
proof -
  obtain err where err: "gemini_request env_down
      ''residential_house living_room, kitchen, bedrooms, bathrooms, dining_room'' = Inl err"
    using env_down_request by blast
  note main = generate_initial_blueprint_fallback [OF scenario_prompt err env_down_payload,
      of init_generator]
  have floors: "floors scenario_requirements = 2"
    by (simp add: scenario_requirements_def)
  from main have "\<exists>g'. generate_initial_blueprint env_down scenario_requirements init_generator
           = Inr (fallback_blueprint, g')
         \<and> length (design_history g') = 1
         \<and> version (last (design_history g')) = 1"
    by (auto simp: init_generator_def)
  moreover from main have "floor_numbers fallback_blueprint = [Some (JInt 1), Some (JInt 2)]"
    by blast
  ultimately show ?thesis
    using floors scenario_prompt err env_down_payload by blast
qed

section \<open>What is raised all the same\<close>

text \<open>
  Two exceptions stay visible to the caller. A generated text that decodes to something
  other than a dictionary reaches normalisation, which calls a dictionary method on it;
  and a request for zero floors divides by zero while the prompt is built, before the
  model is asked.
\<close>

lemma iterate_design_wrong_shape:
  "iterate_design (env_answer ''[]'') ''add a garage'' gen1 = Inl AttributeError"
proof -
  have loads: "loads (env_answer ''[]'') (extract_json_str ''[]'') = Inr (JArr [])"
    unfolding env_answer_def loads_sample_env by code_simp
  show ?thesis
    by (simp add: iterate_design_def Let_def gen1_history env_answer_text
        parse_blueprint_response_def loads validate_and_fix_blueprint_def py_get_def)
qed

lemma generate_initial_blueprint_zero_floors:
  "floors reqs = 0 \<Longrightarrow> generate_initial_blueprint e reqs g = Inl ZeroDivisionError"
  by (simp add: generate_initial_blueprint_def generate_initial_prompt_def py_truediv_def)

end
